theory Spec2Isabelle
  imports Main
begin

section \<open>Strings as Go has them\<close>

text \<open>
  A Go \<^verbatim>\<open>string\<close> and a \<^verbatim>\<open>[]byte\<close> are byte sequences: both are \<^typ>\<open>string\<close> here
  (a list of 8-bit characters). \<^verbatim>\<open>fmt.Sprintf\<close> with \<^verbatim>\<open>%s\<close> verbs only is
  concatenation of the pieces of the format with the arguments.
\<close>

definition dq :: string where
  \<comment> \<open>the double quote character of the format strings\<close>
  "dq = [CHR 0x22]"

definition nl :: string where
  \<comment> \<open>the escape \<^verbatim>\<open>\n\<close>\<close>
  "nl = [CHR 0x0A]"

text \<open>
  \<^verbatim>\<open>strings.Split(s, sep)\<close> for a one-byte separator: the pieces between the
  separators, in order; a string without the separator (the empty string too) gives the
  one-element slice holding it. The result is never empty, so indexing it at 0 cannot
  panic (the second branch of the \<^verbatim>\<open>case\<close> is unreachable, see \<open>Split_not_Nil\<close>).
\<close>

fun Split :: "char \<Rightarrow> string \<Rightarrow> string list" where
  "Split c [] = [[]]"
| "Split c (x # xs) =
     (if x = c then [] # Split c xs
      else (case Split c xs of f # fs \<Rightarrow> (x # f) # fs | [] \<Rightarrow> [[x]]))"

text \<open>
  \<^verbatim>\<open>strings.SplitN(s, sep, 2)\<close> for a one-byte separator: at most two pieces, cut at the
  first separator; the whole string alone when it holds no separator.
\<close>

definition SplitN2 :: "char \<Rightarrow> string \<Rightarrow> string list" where
  "SplitN2 c s =
     (if c \<in> set s
      then [takeWhile (\<lambda>x. x \<noteq> c) s, tl (dropWhile (\<lambda>x. x \<noteq> c) s)]
      else [s])"

text \<open>\<^verbatim>\<open>strings.Contains(s, "$")\<close>: the byte occurs in the string.\<close>

definition Contains :: "string \<Rightarrow> char \<Rightarrow> bool" where
  "Contains s c = (c \<in> set s)"

section \<open>Data model\<close>

text \<open>\<^verbatim>\<open>incus.InstanceUser\<close>: the fields the handlers read.\<close>

record InstanceUser =
  iu_User :: string
  iu_Uid :: int
  iu_Gid :: int
  iu_Dir :: string
  iu_Shell :: string

text \<open>\<^verbatim>\<open>LoginUser\<close>: the fields the handlers and the banner read.\<close>

record LoginUser =
  lu_User :: string
  lu_Instance :: string
  lu_Project :: string
  lu_InstanceUser :: string
  lu_Remote :: string

text \<open>The two fields of the package-level \<^verbatim>\<open>config\<close> that the handlers read.\<close>

record Config =
  cfg_Shell :: string
  cfg_IncusSocket :: string

record Window =
  Width :: int
  Height :: int

text \<open>\<^verbatim>\<open>ssh.Pty\<close>: terminal name and initial window.\<close>

record Pty =
  pty_Term :: string
  pty_Window :: Window

text \<open>
  What a handler reads from its \<^verbatim>\<open>ssh.Session\<close>. \<open>ctx_LoginUser\<close> is the result of
  \<^verbatim>\<open>s.Context().Value("LoginUser").(LoginUser)\<close>: \<open>None\<close> when the type assertion
  fails (\<^verbatim>\<open>ok\<close> false). \<open>PtyReq\<close> and \<open>IsPty\<close> are the first and third result of
  \<^verbatim>\<open>s.Pty()\<close>; the window-change channel carries no data the sequential part depends on.
\<close>

record Session =
  ctx_LoginUser :: "LoginUser option"
  Environ :: "string list"
  RawCommand :: string
  PtyReq :: Pty
  IsPty :: bool
  AgentRequested :: bool
  RemoteAddr :: string

text \<open>
  Modelled from the spec: the constants \<^verbatim>\<open>ShellSu\<close> and \<^verbatim>\<open>ShellLogin\<close> are declared
  outside the given sources; the spec's configuration section gives the values of
  \<^verbatim>\<open>Shell\<close> as \<^verbatim>\<open>su\<close>, \<^verbatim>\<open>login\<close> and \<^verbatim>\<open>shell\<close>.
\<close>

definition ShellSu :: string where
  "ShellSu = ''su''"

definition ShellLogin :: string where
  "ShellLogin = ''login''"

section \<open>Exit codes\<close>

definition ExitCodeNotImplemented :: int where "ExitCodeNotImplemented = - 1"
definition ExitCodeInvalidLogin :: int where "ExitCodeInvalidLogin = 1"
definition ExitCodeInvalidProject :: int where "ExitCodeInvalidProject = 2"
definition ExitCodeMetaError :: int where "ExitCodeMetaError = 3"
definition ExitCodeArchitectureError :: int where "ExitCodeArchitectureError = 4"
definition ExitCodeInternalError :: int where "ExitCodeInternalError = 20"
definition ExitCodeConnectionError :: int where "ExitCodeConnectionError = 255"

section \<open>The command string\<close>

text \<open>
  \<^verbatim>\<open>buildCommandString\<close>: the command and the flag \<^verbatim>\<open>shouldRunAsUser\<close> (initially
  false). The \<^verbatim>\<open>switch\<close> on \<^verbatim>\<open>config.Shell\<close> takes the first matching case, the
  default for every other value.
\<close>

definition buildCommandString ::
  "Config \<Rightarrow> Session \<Rightarrow> InstanceUser \<Rightarrow> string \<Rightarrow> string \<times> bool" where
  "buildCommandString cfg s iu remoteAddr =
     (if RawCommand s = [] then
        (if cfg_Shell cfg = ShellSu then
           (''su - '' @ dq @ iu_User iu @ dq, False)
         else if cfg_Shell cfg = ShellLogin then
           (let host = hd (Split (CHR '':'') remoteAddr)
            in (''login -h '' @ dq @ host @ dq @ '' -f '' @ dq @ iu_User iu @ dq, False))
         else
           (iu_Shell iu @ '' -l'', True))
      else
        (let cmd = RawCommand s
         in if Contains cmd (CHR ''$'')
            then (iu_Shell iu @ '' -c '' @ dq @ cmd @ dq, True)
            else (cmd, True)))"

section \<open>The environment of the in-container process\<close>

text \<open>
  One iteration of the loop over \<^verbatim>\<open>s.Environ()\<close>: an entry with an equals sign is cut
  at the first one and stored under the text before it; an entry without is skipped.
\<close>

definition env_entry :: "string \<Rightarrow> (string \<rightharpoonup> string) \<Rightarrow> (string \<rightharpoonup> string)" where
  "env_entry v env =
     (case SplitN2 (CHR ''='') v of
        [k, x] \<Rightarrow> env(k \<mapsto> x)
      | _ \<Rightarrow> env)"

text \<open>
  \<^verbatim>\<open>setupEnvironmentVariables\<close>: the Go map is a partial function from names to values,
  filled in the order of the assignments of the source.
\<close>

definition setupEnvironmentVariables ::
  "Session \<Rightarrow> InstanceUser \<Rightarrow> Pty \<Rightarrow> (string \<rightharpoonup> string)" where
  "setupEnvironmentVariables s iu ptyReq =
     (let env = fold env_entry (Environ s) Map.empty;
          env = (if pty_Term ptyReq \<noteq> []
                 then env(''TERM'' \<mapsto> pty_Term ptyReq)
                 else env(''TERM'' \<mapsto> ''xterm-256color''));
          env = env(''USER'' \<mapsto> iu_User iu);
          env = env(''HOME'' \<mapsto> iu_Dir iu);
          env = env(''SHELL'' \<mapsto> iu_Shell iu)
      in env)"

text \<open>
  The name of an entry of the environment request, as the loop reads it: the text before
  the first equals sign, when there is one.
\<close>

definition entry_key :: "string \<Rightarrow> string option" where
  "entry_key v =
     (if CHR ''='' \<in> set v then Some (takeWhile (\<lambda>c. c \<noteq> CHR ''='') v) else None)"

section \<open>Requests to the container API\<close>

text \<open>\<^verbatim>\<open>incus.ProxyDevice\<close>, as the dispatcher fills it.\<close>

record ProxyDevice =
  pd_Project :: string
  pd_Instance :: string
  pd_Source :: string
  pd_Uid :: int
  pd_Gid :: int
  pd_Mode :: string

text \<open>
  \<^verbatim>\<open>incus.InstanceExec\<close>, as the dispatcher fills it. The byte streams and the window
  channel (\<^verbatim>\<open>Stdin\<close>, \<^verbatim>\<open>Stdout\<close>, \<^verbatim>\<open>Stderr\<close>, \<^verbatim>\<open>WinCh\<close>) are handles, not data, and
  are left out.
\<close>

record InstanceExec =
  ie_Instance :: string
  ie_Cmd :: string
  ie_Env :: "string \<rightharpoonup> string"
  ie_IsPty :: bool
  ie_Window :: Window
  ie_User :: int
  ie_Group :: int
  ie_Cwd :: string

section \<open>Effects\<close>

text \<open>
  A handler returns nothing; what it does is the sequence of its calls on the session, the
  log, the container API and the host, in program order. Each handler is a function to
  that sequence. A log event carries the format string of the call. Deferred calls appear
  where they run: after the body, last deferred first. Goroutines (the copiers, the window
  forwarders) are started and not followed.
\<close>

datatype event =
    LogErrorf string
  | LogDebugf string
  | WriteString string
  | Exit int
  | Call_incusShell
  | Call_NewIncusServer
  | Call_Connect
  | Call_Disconnect
  | Call_UseProject string
  | Call_GetInstanceUser string string string
  | Call_NewAgentListener
  | Go_ForwardAgentConnections
  | Call_ListenerClose
  | Call_AddSocket ProxyDevice
  | Call_RemoveSocket ProxyDevice
  | Call_Exec InstanceExec
  | Close_windowChannel
  | Call_shlexSplit string bool
  | Call_ptyStart "string list" "string list"
  | Call_cmdWait
  | Call_fileClose
  | Panic string

text \<open>
  What the container API answers. An error is its message; \<open>None\<close> from a call that
  returns only an error means success. \<^verbatim>\<open>GetInstanceUser\<close> returns \<open>None\<close> for
  \<^verbatim>\<open>nil\<close>. \<open>new_agent_listener\<close> gives the listener's address, \<open>add_socket\<close> the path of
  the socket in the container, \<open>exec\<close> the pair \<^verbatim>\<open>(ret, err)\<close> of \<^verbatim>\<open>ie.Exec()\<close>.
\<close>

record Backend =
  new_server :: "string option"
  connect :: "string option"
  use_project :: "string \<Rightarrow> string option"
  get_instance_user :: "string \<Rightarrow> string \<Rightarrow> string \<Rightarrow> InstanceUser option"
  new_agent_listener :: "string + string"
  add_socket :: "ProxyDevice \<Rightarrow> string + string"
  exec :: "InstanceExec \<Rightarrow> int \<times> string option"

text \<open>
  How \<^verbatim>\<open>cmd.Wait()\<close> ends: \<^verbatim>\<open>nil\<close> (the child ran and left with status 0), an
  \<^verbatim>\<open>*exec.ExitError\<close> with the value of its \<^verbatim>\<open>ExitCode()\<close>, or another error.
\<close>

datatype wait_result = WaitNil | WaitExitError int | WaitOtherError string

text \<open>
  What the host answers to the self-service subshell: the result of \<^verbatim>\<open>shlex.Split\<close> (a
  helper of the repository outside the given sources, taken as it answers), of
  \<^verbatim>\<open>pty.Start\<close> on the argument vector and environment of the command, of the copy from the
  PTY to the session (\<open>copy_out\<close> is the error the function logs, one that is not the end
  of the input), and of \<^verbatim>\<open>cmd.Wait\<close>.
\<close>

record Host =
  shlex_Split :: "string \<Rightarrow> bool \<Rightarrow> string + string list"
  pty_Start :: "string list \<Rightarrow> string list \<Rightarrow> string option"
  copy_out :: "string option"
  cmd_Wait :: wait_result

text \<open>
  Modelled from the spec: \<^verbatim>\<open>LoginUser.IsDefaultProject\<close> is declared outside the given
  sources; the spec has the project default to \<^verbatim>\<open>default\<close> and the dispatcher call
  \<^verbatim>\<open>UseProject\<close> when the project is not \<^verbatim>\<open>default\<close>.
\<close>

definition IsDefaultProject :: "LoginUser \<Rightarrow> bool" where
  "IsDefaultProject lu = (lu_Project lu = ''default'')"

section \<open>The self-service subshell\<close>

definition cmdString :: string where
  "cmdString =
     ''bash -c '' @ [CHR 0x27] @ ''while true; do read -r -p '' @ dq @ nl
     @ ''Type incus command:'' @ nl
     @ ''> incus '' @ dq @ '' a; incus $a; done'' @ [CHR 0x27]"

definition welcome_message :: string where
  "welcome_message =
     nl @ ''incus shell emulator. Use Ctrl+c to exit'' @ nl @ nl
     @ ''Hit Enter or type '' @ [CHR 0x27] @ ''help'' @ [CHR 0x27] @ '' for help'' @ nl"

text \<open>
  \<^verbatim>\<open>incusShell\<close>. \<^verbatim>\<open>exec.Command(args[0], args[1:]...)\<close> indexes the argument vector:
  an empty one panics. \<^verbatim>\<open>cmd.Env\<close> starts out nil, so after the \<^verbatim>\<open>append\<close> it holds
  the three entries. When \<^verbatim>\<open>cmd.Wait\<close> returns nil the function ends without a call of
  \<^verbatim>\<open>s.Exit\<close>. The two deferred calls (\<^verbatim>\<open>cancel\<close>, then \<^verbatim>\<open>f.Close\<close>) run once the PTY
  was started; \<^verbatim>\<open>cancel\<close> has no effect outside the function and is left out.
\<close>

definition incusShell :: "Config \<Rightarrow> Host \<Rightarrow> Session \<Rightarrow> event list" where
  "incusShell cfg h s =
     Call_shlexSplit cmdString True #
     (case shlex_Split h cmdString True of
        Inl err \<Rightarrow>
          [LogErrorf ''command parsing failed: %w'',
           WriteString (''Internal error: command parsing failed'' @ nl),
           Exit ExitCodeConnectionError]
      | Inr args \<Rightarrow>
          (case args of
             [] \<Rightarrow> [Panic ''index out of range'']
           | arg0 # rest \<Rightarrow>
               if \<not> IsPty s then
                 [WriteString (''No PTY requested.'' @ nl), Exit ExitCodeConnectionError]
               else
                 (let env = [''TERM='' @ pty_Term (PtyReq s),
                             ''PATH=/bin:/usr/bin:/snap/bin:/usr/local/bin'',
                             ''INCUS_SOCKET='' @ cfg_IncusSocket cfg]
                  in Call_ptyStart args env #
                     (case pty_Start h args env of
                        Some err \<Rightarrow>
                          [LogErrorf ''pty start failed: %w'',
                           WriteString (''Couldn'' @ [CHR 0x27] @ ''t allocate PTY'' @ nl),
                           Exit ExitCodeConnectionError]
                      | None \<Rightarrow>
                          [WriteString welcome_message]
                          @ (case copy_out h of
                               None \<Rightarrow> []
                             | Some err \<Rightarrow> [LogDebugf ''stdout copy error: %w''])
                          @ [Call_cmdWait]
                          @ (case cmd_Wait h of
                               WaitNil \<Rightarrow> []
                             | WaitExitError code \<Rightarrow> [Exit code]
                             | WaitOtherError err \<Rightarrow>
                                 [LogErrorf ''command wait error: %w'',
                                  Exit ExitCodeConnectionError])
                          @ [Call_fileClose]))))"

section \<open>The session dispatcher\<close>

text \<open>
  Lines 177 and 196 to 214 of \<^verbatim>\<open>shellHandler\<close>: the command, the target uid and gid
  (both 0, the zero value, unless the command runs as the instance user) and the exec
  request built from them.
\<close>

definition exec_request ::
  "Config \<Rightarrow> Session \<Rightarrow> LoginUser \<Rightarrow> InstanceUser \<Rightarrow> (string \<rightharpoonup> string) \<Rightarrow> InstanceExec" where
  "exec_request cfg s lu iu env =
     (let (cmd, shouldRunAsUser) = buildCommandString cfg s iu (RemoteAddr s);
          (uid, gid) = (if shouldRunAsUser then (iu_Uid iu, iu_Gid iu) else (0, 0))
      in \<lparr>ie_Instance = lu_Instance lu, ie_Cmd = cmd, ie_Env = env,
          ie_IsPty = IsPty s, ie_Window = pty_Window (PtyReq s),
          ie_User = uid, ie_Group = gid, ie_Cwd = iu_Dir iu\<rparr>)"

text \<open>
  Lines 176 to 221: the exec and the exit with the code \<^verbatim>\<open>Exec\<close> returned, whether or
  not it also returned an error. The deferred \<^verbatim>\<open>close(windowChannel)\<close> was registered
  last and runs first.
\<close>

definition shell_exec ::
  "Config \<Rightarrow> Backend \<Rightarrow> Session \<Rightarrow> LoginUser \<Rightarrow> InstanceUser \<Rightarrow> (string \<rightharpoonup> string)
     \<Rightarrow> event list" where
  "shell_exec cfg b s lu iu env =
     (let ie = exec_request cfg s lu iu env;
          (ret, err) = exec b ie
      in [LogDebugf ''shell cmd: %v'', LogDebugf ''shell pty: %v'', LogDebugf ''shell env: %v'',
          Call_Exec ie]
         @ (if err \<noteq> None then [LogDebugf ''shell: connection failed: %w''] else [])
         @ [Exit ret, Close_windowChannel])"

text \<open>Lines 159 to 166: the proxy device of the agent socket.\<close>

definition agent_device :: "LoginUser \<Rightarrow> InstanceUser \<Rightarrow> string \<Rightarrow> ProxyDevice" where
  "agent_device lu iu addr =
     \<lparr>pd_Project = lu_Project lu, pd_Instance = lu_Instance lu, pd_Source = addr,
      pd_Uid = iu_Uid iu, pd_Gid = iu_Gid iu, pd_Mode = ''0660''\<rparr>"

text \<open>
  Lines 148 to 174: the agent socket. A listener that cannot be created ends the handler
  with a log line and nothing else. With a listener, \<^verbatim>\<open>l.Close\<close> is deferred, and
  \<^verbatim>\<open>d.RemoveSocket\<close> is deferred when \<^verbatim>\<open>AddSocket\<close> succeeded; both run after the rest of
  the body, \<^verbatim>\<open>RemoveSocket\<close> first.
\<close>

definition shell_agent ::
  "Config \<Rightarrow> Backend \<Rightarrow> Session \<Rightarrow> LoginUser \<Rightarrow> InstanceUser \<Rightarrow> (string \<rightharpoonup> string)
     \<Rightarrow> event list" where
  "shell_agent cfg b s lu iu env =
     (if AgentRequested s then
        Call_NewAgentListener #
        (case new_agent_listener b of
           Inl err \<Rightarrow> [LogErrorf ''Failed to create agent listener: %w'']
         | Inr addr \<Rightarrow>
             (let d = agent_device lu iu addr
              in [Go_ForwardAgentConnections, Call_AddSocket d]
                 @ (case add_socket b d of
                      Inr socket \<Rightarrow>
                        shell_exec cfg b s lu iu (env(''SSH_AUTH_SOCK'' \<mapsto> socket))
                        @ [Call_RemoveSocket d]
                    | Inl err \<Rightarrow>
                        LogErrorf ''Failed to add socket: %w'' # shell_exec cfg b s lu iu env)
                 @ [Call_ListenerClose]))
      else shell_exec cfg b s lu iu env)"

text \<open>
  Lines 129 to 146: the instance user. The lookup is made only for a non-empty
  \<^verbatim>\<open>InstanceUser\<close>; without a user the handler writes its message and exits.
\<close>

definition shell_user :: "Config \<Rightarrow> Backend \<Rightarrow> Session \<Rightarrow> LoginUser \<Rightarrow> event list" where
  "shell_user cfg b s lu =
     (let (calls, iu) =
            (if lu_InstanceUser lu \<noteq> []
             then ([Call_GetInstanceUser (lu_Project lu) (lu_Instance lu) (lu_InstanceUser lu)],
                   get_instance_user b (lu_Project lu) (lu_Instance lu) (lu_InstanceUser lu))
             else ([], None))
      in calls @
         (case iu of
            None \<Rightarrow>
              [WriteString (''not found user or instance'' @ nl),
               LogErrorf ''shell: not found instance user for %#v'',
               Exit ExitCodeInvalidLogin]
          | Some iu \<Rightarrow>
              shell_agent cfg b s lu iu (setupEnvironmentVariables s iu (PtyReq s))))"

text \<open>Lines 118 to 127: the project.\<close>

definition shell_project :: "Config \<Rightarrow> Backend \<Rightarrow> Session \<Rightarrow> LoginUser \<Rightarrow> event list" where
  "shell_project cfg b s lu =
     (if \<not> IsDefaultProject lu then
        Call_UseProject (lu_Project lu) #
        (case use_project b (lu_Project lu) of
           Some err \<Rightarrow>
             [LogErrorf ''using project %s error: %w'',
              WriteString (''unknown project '' @ lu_Project lu @ nl),
              Exit ExitCodeInvalidProject]
         | None \<Rightarrow> shell_user cfg b s lu)
      else shell_user cfg b s lu)"

text \<open>
  \<^verbatim>\<open>shellHandler\<close>. The method \<^verbatim>\<open>LoginUser.IsValid\<close> is declared outside the given
  sources and is a parameter. \<^verbatim>\<open>server.Disconnect\<close> is deferred once \<^verbatim>\<open>Connect\<close>
  succeeded and runs last.
\<close>

definition shellHandler ::
  "(LoginUser \<Rightarrow> bool) \<Rightarrow> Config \<Rightarrow> Host \<Rightarrow> Backend \<Rightarrow> Session \<Rightarrow> event list" where
  "shellHandler IsValid cfg h b s =
     (case (case ctx_LoginUser s of
              None \<Rightarrow> None
            | Some lu \<Rightarrow> if IsValid lu then Some lu else None) of
        None \<Rightarrow>
          [LogErrorf ''invalid connection data for %#v'',
           WriteString ''invalid connection data'',
           Exit ExitCodeInvalidLogin]
      | Some lu \<Rightarrow>
          LogDebugf ''shell: connecting %#v'' #
          (if lu_User lu = ''root'' \<and> lu_Instance lu = ''%shell'' then
             Call_incusShell # incusShell cfg h s
           else
             Call_NewIncusServer #
             (case new_server b of
                Some err \<Rightarrow>
                  [LogErrorf ''failed to initialize incus client: %w'',
                   Exit ExitCodeConnectionError]
              | None \<Rightarrow>
                  Call_Connect #
                  (case connect b of
                     Some err \<Rightarrow>
                       [LogErrorf ''failed to connect to incus: %w'',
                        Exit ExitCodeConnectionError]
                   | None \<Rightarrow> shell_project cfg b s lu @ [Call_Disconnect]))))"

section \<open>The banner\<close>

text \<open>
  The banner is UTF-8 text; the box-drawing characters and the three pictographs of the
  source are written as their bytes.
\<close>

definition box_dr :: string where "box_dr = [CHR 0xE2, CHR 0x94, CHR 0x8C]"
definition box_dl :: string where "box_dl = [CHR 0xE2, CHR 0x94, CHR 0x90]"
definition box_v :: string where "box_v = [CHR 0xE2, CHR 0x94, CHR 0x82]"
definition box_ur :: string where "box_ur = [CHR 0xE2, CHR 0x94, CHR 0x94]"
definition box_ul :: string where "box_ul = [CHR 0xE2, CHR 0x94, CHR 0x98]"
definition box_h :: string where "box_h = [CHR 0xE2, CHR 0x94, CHR 0x80]"
definition bslash :: string where "bslash = [CHR 0x5C]"
definition apos :: string where "apos = [CHR 0x27]"
definition bust :: string where "bust = [CHR 0xF0, CHR 0x9F, CHR 0x91, CHR 0xA4]"
definition package :: string where "package = [CHR 0xF0, CHR 0x9F, CHR 0x93, CHR 0xA6]"
definition laptop :: string where "laptop = [CHR 0xF0, CHR 0x9F, CHR 0x92, CHR 0xBB]"

text \<open>
  The template: the initial value of the package variable \<^verbatim>\<open>banner\<close> of the first
  \<^verbatim>\<open>bannerHandler\<close> of \<^verbatim>\<open>banner.go\<close>, and the constant \<^verbatim>\<open>banner\<close> of the second.
\<close>

definition banner :: string where
  "banner =
     nl
     @ box_dr @ concat (replicate 46 box_h) @ box_dl @ nl
     @ box_v @ ''          _     ____  _                       '' @ box_v @ nl
     @ box_v @ ''  ___ ___| |__ |___ '' @ bslash @ ''(_)_ __   ___ _   _ ___  '' @ box_v @ nl
     @ box_v @ '' / __/ __| '' @ apos @ ''_ '' @ bslash @ ''  __) | | '' @ apos @ ''_ '' @ bslash @ '' / __| | | / __| '' @ box_v @ nl
     @ box_v @ '' '' @ bslash @ ''__ '' @ bslash @ ''__ '' @ bslash @ '' | | |/ __/| | | | | (__| |_| '' @ bslash @ ''__ '' @ bslash @ '' '' @ box_v @ nl
     @ box_v @ '' |___/___/_| |_|_____|_|_| |_|'' @ bslash @ ''___|'' @ bslash @ ''__,_|___/ '' @ box_v @ nl
     @ box_ur @ concat (replicate 46 box_h) @ box_ul @ nl"

text \<open>
  The line both handlers format: \<^verbatim>\<open>fmt.Sprintf\<close> of the user, the instance, the project
  and the host part, followed by a rule of 48 dashes.
\<close>

definition banner_line :: "LoginUser \<Rightarrow> string \<Rightarrow> string" where
  "banner_line lu hostname =
     bust @ '' '' @ lu_InstanceUser lu @ '' '' @ package @ '' '' @ lu_Instance lu
     @ ''.'' @ lu_Project lu @ hostname @ nl
     @ concat (replicate 48 box_h) @ nl"

text \<open>
  \<^verbatim>\<open>bannerHandler\<close>, lines 20 to 34 of \<^verbatim>\<open>banner.go\<close>. The package variable is state: the
  function takes its value and returns the string for the client with the new value.
  \<open>lu\<close> is the result of \<^verbatim>\<open>parseLoginUser(ctx.User())\<close> and \<open>hostname\<close> the name
  \<^verbatim>\<open>os.Hostname\<close> returned (empty on error); \<^verbatim>\<open>parseLoginUser\<close> and \<^verbatim>\<open>IsValid\<close> are
  declared outside the given sources.
\<close>

definition bannerHandler ::
  "(LoginUser \<Rightarrow> bool) \<Rightarrow> string \<Rightarrow> LoginUser \<Rightarrow> string \<Rightarrow> string \<times> string" where
  "bannerHandler IsValid hostname lu banner_var =
     (if \<not> IsValid lu then ([], banner_var)
      else
        (let hostname = (if hostname \<noteq> [] then '' '' @ laptop @ '' '' @ hostname
                         else hostname);
             banner_var = banner_var @ banner_line lu hostname
         in (banner_var @ nl, banner_var)))"

text \<open>
  \<^verbatim>\<open>bannerHandler\<close>, lines 54 to 75 of \<^verbatim>\<open>banner.go\<close>: the template is a constant and the
  banner is built in a local variable. \<open>lu\<close> is the result of
  \<^verbatim>\<open>LoginUserFromContext(ctx)\<close>; that function and the methods \<^verbatim>\<open>IsValid\<close> and
  \<^verbatim>\<open>IsCommand\<close> are declared outside the given sources.
\<close>

definition bannerHandler_const ::
  "(LoginUser \<Rightarrow> bool) \<Rightarrow> (LoginUser \<Rightarrow> bool) \<Rightarrow> string \<Rightarrow> LoginUser \<Rightarrow> string" where
  "bannerHandler_const IsValid IsCommand hostname lu =
     (if \<not> IsValid lu then []
      else if IsCommand lu then banner
      else
        (let remote = lu_Remote lu;
             remote = (if remote \<noteq> [] then remote @ '' / '' else remote);
             hostname = (if hostname \<noteq> [] then '' '' @ laptop @ '' '' @ remote @ hostname
                         else hostname);
             b = banner @ banner_line lu hostname
         in b @ nl))"

section \<open>Host identity helpers\<close>

text \<open>
  Errors: the package's \<^verbatim>\<open>errNotFound\<close>, and whatever error the \<^verbatim>\<open>id\<close> command ended
  with, by its message.
\<close>

datatype go_error = errNotFound | CommandError string

record User =
  Username :: string

text \<open>
  \<^verbatim>\<open>idGroupList\<close> and \<^verbatim>\<open>idGroupNameList\<close>. \<^verbatim>\<open>bytes.TrimSpace\<close> and
  \<^verbatim>\<open>strings.Fields\<close> are functions of the Go library, and the helper \<^verbatim>\<open>command\<close>, which
  runs the program and returns its output or an error, is declared outside the given
  sources: the three are parameters, as is the path \<^verbatim>\<open>idExe\<close> set at start-up. What is
  proved of the two functions holds for the library's trimming and splitting as they
  are, Unicode white space included.
\<close>

definition idGroupList ::
  "(string \<Rightarrow> string) \<Rightarrow> (string \<Rightarrow> string list)
     \<Rightarrow> (string \<Rightarrow> string list \<Rightarrow> go_error + string) \<Rightarrow> string \<Rightarrow> User
     \<Rightarrow> go_error + string list" where
  "idGroupList TrimSpace Fields command idExe u =
     (case command idExe [''-G'', Username u] of
        Inl err \<Rightarrow> Inl err
      | Inr data \<Rightarrow>
          (let data = TrimSpace data
           in if length data > 0 then Inr (Fields data) else Inl errNotFound))"

definition idGroupNameList ::
  "(string \<Rightarrow> string) \<Rightarrow> (string \<Rightarrow> string list)
     \<Rightarrow> (string \<Rightarrow> string list \<Rightarrow> go_error + string) \<Rightarrow> string \<Rightarrow> User
     \<Rightarrow> go_error + string list" where
  "idGroupNameList TrimSpace Fields command idExe u =
     (case command idExe [''-Gn'', Username u] of
        Inl err \<Rightarrow> Inl err
      | Inr data \<Rightarrow>
          (let data = TrimSpace data
           in if length data > 0 then Inr (Fields data) else Inl errNotFound))"

section \<open>Observations on a trace\<close>

text \<open>The codes of the \<^verbatim>\<open>s.Exit\<close> calls, in order.\<close>

fun exit_codes :: "event list \<Rightarrow> int list" where
  "exit_codes [] = []"
| "exit_codes (Exit c # es) = c # exit_codes es"
| "exit_codes (e # es) = exit_codes es"

text \<open>The requests handed to the exec engine, in order.\<close>

fun exec_requests :: "event list \<Rightarrow> InstanceExec list" where
  "exec_requests [] = []"
| "exec_requests (Call_Exec ie # es) = ie # exec_requests es"
| "exec_requests (e # es) = exec_requests es"

text \<open>The projects \<^verbatim>\<open>UseProject\<close> was called with, in order.\<close>

fun used_projects :: "event list \<Rightarrow> string list" where
  "used_projects [] = []"
| "used_projects (Call_UseProject p # es) = p # used_projects es"
| "used_projects (e # es) = used_projects es"

text \<open>The devices \<^verbatim>\<open>RemoveSocket\<close> was called on, in order.\<close>

fun removed_sockets :: "event list \<Rightarrow> ProxyDevice list" where
  "removed_sockets [] = []"
| "removed_sockets (Call_RemoveSocket d # es) = d # removed_sockets es"
| "removed_sockets (e # es) = removed_sockets es"

text \<open>The texts written to the SSH session, in order.\<close>

fun written :: "event list \<Rightarrow> string list" where
  "written [] = []"
| "written (WriteString w # es) = w # written es"
| "written (e # es) = written es"

text \<open>The environments of the child processes the subshell tried to start.\<close>

fun started_envs :: "event list \<Rightarrow> string list list" where
  "started_envs [] = []"
| "started_envs (Call_ptyStart args env # es) = env # started_envs es"
| "started_envs (e # es) = started_envs es"

text \<open>The arguments of the \<^verbatim>\<open>GetInstanceUser\<close> calls, in order.\<close>

fun user_lookups :: "event list \<Rightarrow> (string \<times> string \<times> string) list" where
  "user_lookups [] = []"
| "user_lookups (Call_GetInstanceUser p i u # es) = (p, i, u) # user_lookups es"
| "user_lookups (e # es) = user_lookups es"

text \<open>
  The dispatcher gets as far as its project handling: the session carries a valid login
  descriptor that is not the self-service one, and the container API client was created
  and connected.
\<close>

definition reaches_project ::
  "(LoginUser \<Rightarrow> bool) \<Rightarrow> Backend \<Rightarrow> Session \<Rightarrow> LoginUser \<Rightarrow> bool" where
  "reaches_project IsValid b s lu =
     (ctx_LoginUser s = Some lu \<and> IsValid lu
      \<and> \<not> (lu_User lu = ''root'' \<and> lu_Instance lu = ''%shell'')
      \<and> new_server b = None \<and> connect b = None)"

text \<open>
  The dispatcher gets as far as its user handling: as before, and the project is
  \<^verbatim>\<open>default\<close> or \<^verbatim>\<open>UseProject\<close> accepted it.
\<close>

definition reaches_user ::
  "(LoginUser \<Rightarrow> bool) \<Rightarrow> Backend \<Rightarrow> Session \<Rightarrow> LoginUser \<Rightarrow> bool" where
  "reaches_user IsValid b s lu =
     (reaches_project IsValid b s lu
      \<and> (IsDefaultProject lu \<or> use_project b (lu_Project lu) = None))"

text \<open>
  The dispatcher gets as far as its agent set-up with the instance user \<open>iu\<close>: as
  before, and the lookup of the descriptor's non-empty instance user gave \<open>iu\<close>.
\<close>

definition reaches_agent ::
  "(LoginUser \<Rightarrow> bool) \<Rightarrow> Backend \<Rightarrow> Session \<Rightarrow> LoginUser \<Rightarrow> InstanceUser \<Rightarrow> bool" where
  "reaches_agent IsValid b s lu iu =
     (reaches_user IsValid b s lu \<and> lu_InstanceUser lu \<noteq> []
      \<and> get_instance_user b (lu_Project lu) (lu_Instance lu) (lu_InstanceUser lu) = Some iu)"

section \<open>Sample values\<close>

text \<open>
  The account, the configuration and the session of the spec's end-to-end scenarios;
  the closed theorems below evaluate the handlers on them.
\<close>

definition alice :: InstanceUser where
  "alice = \<lparr>iu_User = ''alice'', iu_Uid = 1000, iu_Gid = 1000, iu_Dir = ''/home/alice'',
     iu_Shell = ''/bin/bash''\<rparr>"

definition demo_config :: "string \<Rightarrow> Config" where
  "demo_config mode = \<lparr>cfg_Shell = mode, cfg_IncusSocket = ''/var/lib/incus/unix.socket''\<rparr>"

definition demo_session :: "string \<Rightarrow> bool \<Rightarrow> Session" where
  "demo_session raw agent =
     \<lparr>ctx_LoginUser = Some \<lparr>lu_User = ''alice'', lu_Instance = ''web01'',
        lu_Project = ''default'', lu_InstanceUser = ''alice'', lu_Remote = []\<rparr>,
      Environ = [''LANG=C.UTF-8''], RawCommand = raw,
      PtyReq = \<lparr>pty_Term = [], pty_Window = \<lparr>Width = 80, Height = 24\<rparr>\<rparr>,
      IsPty = False, AgentRequested = agent, RemoteAddr = ''10.0.0.7:51515''\<rparr>"

text \<open>
  A stand-in for \<^verbatim>\<open>LoginUser.IsValid\<close> at the sample inputs: the spec's validity asks for
  a non-empty instance.
\<close>

definition valid_login :: "LoginUser \<Rightarrow> bool" where
  "valid_login lu = (lu_Instance lu \<noteq> [])"

definition demo_login :: "string \<Rightarrow> string \<Rightarrow> string \<Rightarrow> LoginUser" where
  "demo_login user instance project =
     \<lparr>lu_User = user, lu_Instance = instance, lu_Project = project,
      lu_InstanceUser = user, lu_Remote = []\<rparr>"

text \<open>
  A container API that knows the projects \<^verbatim>\<open>default\<close> and \<^verbatim>\<open>prod\<close> and the account
  \<^verbatim>\<open>alice\<close> on \<^verbatim>\<open>web01\<close>; the remote command returns \<open>ret\<close>.
\<close>

definition demo_backend :: "int \<Rightarrow> Backend" where
  "demo_backend ret =
     \<lparr>new_server = None, connect = None,
      use_project = (\<lambda>p. if p = ''default'' \<or> p = ''prod'' then None
                          else Some ''project not found''),
      get_instance_user = (\<lambda>p i u. if i = ''web01'' \<and> u = ''alice'' then Some alice
                                    else None),
      new_agent_listener = Inr ''/tmp/auth-agent/listener.sock'',
      add_socket = (\<lambda>d. Inr ''/tmp/ssh-agent.sock''),
      exec = (\<lambda>ie. (ret, None))\<rparr>"

definition demo_host :: "wait_result \<Rightarrow> Host" where
  "demo_host w =
     \<lparr>shlex_Split = (\<lambda>line posix. Inr [''bash'', ''-c'', ''incus-loop'']),
      pty_Start = (\<lambda>args env. None),
      copy_out = None,
      cmd_Wait = w\<rparr>"

text \<open>
  An \<^verbatim>\<open>id\<close> command that knows \<^verbatim>\<open>alice\<close>, prints nothing but a newline for \<^verbatim>\<open>ghost\<close>,
  nothing but a no-break space (U+00A0, the bytes C2 A0) and a newline for \<^verbatim>\<open>nbsp\<close>, and
  fails for everybody else.
\<close>

definition demo_command :: "string \<Rightarrow> string list \<Rightarrow> go_error + string" where
  "demo_command exe args =
     (if args = [''-G'', ''alice''] then Inr (''1000 27 100'' @ nl)
      else if args = [''-Gn'', ''alice''] then Inr (''alice sudo users'' @ nl)
      else if args = [''-G'', ''ghost''] \<or> args = [''-Gn'', ''ghost''] then Inr nl
      else if args = [''-G'', ''nbsp''] \<or> args = [''-Gn'', ''nbsp'']
      then Inr ([CHR 0xC2, CHR 0xA0] @ nl)
      else Inl (CommandError ''exit status 1''))"

text \<open>
  What \<^verbatim>\<open>bytes.TrimSpace\<close> and \<^verbatim>\<open>strings.Fields\<close> answer on the outputs of this command:
  tables of the library's results at the sample inputs, no other input occurring.
\<close>

definition demo_TrimSpace :: "string \<Rightarrow> string" where
  "demo_TrimSpace data =
     (if data = ''1000 27 100'' @ nl then ''1000 27 100''
      else if data = ''alice sudo users'' @ nl then ''alice sudo users''
      else if data = nl \<or> data = [CHR 0xC2, CHR 0xA0] @ nl then []
      else data)"

definition demo_Fields :: "string \<Rightarrow> string list" where
  "demo_Fields s =
     (if s = ''1000 27 100'' then [''1000'', ''27'', ''100'']
      else if s = ''alice sudo users'' then [''alice'', ''sudo'', ''users'']
      else [s])"

section \<open>Properties of the string helpers\<close>

lemma Split_not_Nil: "Split c s \<noteq> []"
  by (induction s) (auto split: list.splits)

lemma hd_Split: "hd (Split c s) = takeWhile (\<lambda>x. x \<noteq> c) s"
proof (induction s)
  case Nil
  show ?case by simp
next
  case (Cons x xs)
  show ?case
  proof (cases "x = c")
    case True
    then show ?thesis by simp
  next
    case False
    obtain f fs where sp: "Split c xs = f # fs"
      using Split_not_Nil [of c xs] by (cases "Split c xs") auto
    with Cons False show ?thesis by simp
  qed
qed

section \<open>Command-string rules\<close>

text \<open>
  C1. \<^verbatim>\<open>buildCommandString\<close> follows the documented rules. With an empty raw command:
  mode \<^verbatim>\<open>su\<close> gives \<^verbatim>\<open>su - "<user>"\<close> and mode \<^verbatim>\<open>login\<close> gives
  \<^verbatim>\<open>login -h "<host>" -f "<user>"\<close> (the host being the remote address up to its first
  colon), both with the run-as-user flag false, that is as the host user; every other
  mode, \<^verbatim>\<open>shell\<close> among them, gives \<^verbatim>\<open><shell> -l\<close> with the flag true. With a non-empty
  raw command the flag is always true, and the command is \<^verbatim>\<open><shell> -c "<cmd>"\<close> exactly
  when the raw command contains a dollar sign, and the raw command unchanged otherwise.
  The exec request of the dispatcher carries the command, and as target uid and gid those
  of the instance user when the flag is true and 0, the host side's default, when it is
  false.
\<close>

theorem buildCommandString_rules:
  "(RawCommand s = [] \<and> cfg_Shell cfg = ShellSu \<longrightarrow>
      buildCommandString cfg s iu addr = (''su - '' @ dq @ iu_User iu @ dq, False))
   \<and> (RawCommand s = [] \<and> cfg_Shell cfg = ShellLogin \<longrightarrow>
      buildCommandString cfg s iu addr =
        (''login -h '' @ dq @ takeWhile (\<lambda>x. x \<noteq> CHR '':'') addr @ dq
           @ '' -f '' @ dq @ iu_User iu @ dq, False))
   \<and> (RawCommand s = [] \<and> cfg_Shell cfg \<noteq> ShellSu \<and> cfg_Shell cfg \<noteq> ShellLogin \<longrightarrow>
      buildCommandString cfg s iu addr = (iu_Shell iu @ '' -l'', True))
   \<and> (RawCommand s \<noteq> [] \<longrightarrow>
      snd (buildCommandString cfg s iu addr)
      \<and> (fst (buildCommandString cfg s iu addr)
            = iu_Shell iu @ '' -c '' @ dq @ RawCommand s @ dq
          \<longleftrightarrow> CHR ''$'' \<in> set (RawCommand s))
      \<and> (CHR ''$'' \<notin> set (RawCommand s) \<longrightarrow>
            fst (buildCommandString cfg s iu addr) = RawCommand s))
   \<and> ie_Cmd (exec_request cfg s lu iu env) = fst (buildCommandString cfg s iu (RemoteAddr s))
   \<and> (ie_User (exec_request cfg s lu iu env), ie_Group (exec_request cfg s lu iu env))
       = (if snd (buildCommandString cfg s iu (RemoteAddr s)) then (iu_Uid iu, iu_Gid iu)
          else (0, 0))"
proof -
  have diff: "RawCommand s \<noteq> iu_Shell iu @ '' -c '' @ dq @ RawCommand s @ dq"
  proof
    assume "RawCommand s = iu_Shell iu @ '' -c '' @ dq @ RawCommand s @ dq"
    then have "length (RawCommand s)
        = length (iu_Shell iu @ '' -c '' @ dq @ RawCommand s @ dq)"
      by simp
    then show False by (simp add: dq_def)
  qed
  have request: "ie_Cmd (exec_request cfg s lu iu env)
        = fst (buildCommandString cfg s iu (RemoteAddr s))
      \<and> (ie_User (exec_request cfg s lu iu env), ie_Group (exec_request cfg s lu iu env))
          = (if snd (buildCommandString cfg s iu (RemoteAddr s)) then (iu_Uid iu, iu_Gid iu)
             else (0, 0))"
    by (simp add: exec_request_def Let_def split: prod.splits)
  have rules: "(RawCommand s = [] \<and> cfg_Shell cfg = ShellSu \<longrightarrow>
      buildCommandString cfg s iu addr = (''su - '' @ dq @ iu_User iu @ dq, False))
   \<and> (RawCommand s = [] \<and> cfg_Shell cfg = ShellLogin \<longrightarrow>
      buildCommandString cfg s iu addr =
        (''login -h '' @ dq @ takeWhile (\<lambda>x. x \<noteq> CHR '':'') addr @ dq
           @ '' -f '' @ dq @ iu_User iu @ dq, False))
   \<and> (RawCommand s = [] \<and> cfg_Shell cfg \<noteq> ShellSu \<and> cfg_Shell cfg \<noteq> ShellLogin \<longrightarrow>
      buildCommandString cfg s iu addr = (iu_Shell iu @ '' -l'', True))
   \<and> (RawCommand s \<noteq> [] \<longrightarrow>
      snd (buildCommandString cfg s iu addr)
      \<and> (fst (buildCommandString cfg s iu addr)
            = iu_Shell iu @ '' -c '' @ dq @ RawCommand s @ dq
          \<longleftrightarrow> CHR ''$'' \<in> set (RawCommand s))
      \<and> (CHR ''$'' \<notin> set (RawCommand s) \<longrightarrow>
            fst (buildCommandString cfg s iu addr) = RawCommand s))"
    using diff
    by (simp add: buildCommandString_def Contains_def hd_Split ShellSu_def ShellLogin_def
        Let_def)
  from rules request show ?thesis by (simp only: simp_thms)
qed

theorem buildCommandString_rules_witness:
  "buildCommandString (demo_config ''su'') (demo_session [] False) alice ''10.0.0.7:51515''
     = (''su - '' @ dq @ ''alice'' @ dq, False)
   \<and> buildCommandString (demo_config ''login'') (demo_session [] False) alice ''10.0.0.7:51515''
     = (''login -h '' @ dq @ ''10.0.0.7'' @ dq @ '' -f '' @ dq @ ''alice'' @ dq, False)
   \<and> buildCommandString (demo_config ''shell'') (demo_session [] False) alice ''10.0.0.7:51515''
     = (''/bin/bash -l'', True)
   \<and> buildCommandString (demo_config ''su'') (demo_session ''echo $USER'' False) alice
       ''10.0.0.7:51515''
     = (''/bin/bash -c '' @ dq @ ''echo $USER'' @ dq, True)
   \<and> buildCommandString (demo_config ''su'') (demo_session ''uname -a'' False) alice
       ''10.0.0.7:51515''
     = (''uname -a'', True)
   \<and> (ie_User (exec_request (demo_config ''su'') (demo_session [] False)
          (demo_login ''alice'' ''web01'' ''default'') alice Map.empty),
        ie_Group (exec_request (demo_config ''su'') (demo_session [] False)
          (demo_login ''alice'' ''web01'' ''default'') alice Map.empty))
     = (0, 0)
   \<and> (ie_User (exec_request (demo_config ''shell'') (demo_session [] False)
          (demo_login ''alice'' ''web01'' ''default'') alice Map.empty),
        ie_Group (exec_request (demo_config ''shell'') (demo_session [] False)
          (demo_login ''alice'' ''web01'' ''default'') alice Map.empty))
     = (1000, 1000)"
proof -
  note r = buildCommandString_rules [where iu = alice and addr = "''10.0.0.7:51515''"
      and lu = "demo_login ''alice'' ''web01'' ''default''" and env = Map.empty]
  have addr: "RemoteAddr (demo_session [] False) = ''10.0.0.7:51515''"
    by (simp add: demo_session_def)
  have su: "buildCommandString (demo_config ''su'') (demo_session [] False) alice
      ''10.0.0.7:51515'' = (''su - '' @ dq @ ''alice'' @ dq, False)"
    using r [where cfg = "demo_config ''su''" and s = "demo_session [] False"]
    by (simp add: demo_config_def demo_session_def alice_def ShellSu_def)
  have login: "buildCommandString (demo_config ''login'') (demo_session [] False) alice
      ''10.0.0.7:51515''
      = (''login -h '' @ dq @ ''10.0.0.7'' @ dq @ '' -f '' @ dq @ ''alice'' @ dq, False)"
    using r [where cfg = "demo_config ''login''" and s = "demo_session [] False"]
    by (simp add: demo_config_def demo_session_def alice_def ShellLogin_def)
  have shell: "buildCommandString (demo_config ''shell'') (demo_session [] False) alice
      ''10.0.0.7:51515'' = (''/bin/bash -l'', True)"
    using r [where cfg = "demo_config ''shell''" and s = "demo_session [] False"]
    by (simp add: demo_config_def demo_session_def alice_def ShellSu_def ShellLogin_def)
  have wrapped: "buildCommandString (demo_config ''su'') (demo_session ''echo $USER'' False)
      alice ''10.0.0.7:51515'' = (''/bin/bash -c '' @ dq @ ''echo $USER'' @ dq, True)"
    using r [where cfg = "demo_config ''su''" and s = "demo_session ''echo $USER'' False"]
    by (simp add: demo_config_def demo_session_def alice_def prod_eq_iff)
  have plain: "buildCommandString (demo_config ''su'') (demo_session ''uname -a'' False)
      alice ''10.0.0.7:51515'' = (''uname -a'', True)"
    using r [where cfg = "demo_config ''su''" and s = "demo_session ''uname -a'' False"]
    by (simp add: demo_config_def demo_session_def alice_def prod_eq_iff)
  have host_user: "(ie_User (exec_request (demo_config ''su'') (demo_session [] False)
          (demo_login ''alice'' ''web01'' ''default'') alice Map.empty),
        ie_Group (exec_request (demo_config ''su'') (demo_session [] False)
          (demo_login ''alice'' ''web01'' ''default'') alice Map.empty))
     = (0, 0)"
    using r [where cfg = "demo_config ''su''" and s = "demo_session [] False"] su
    by (simp add: addr)
  have instance_user: "(ie_User (exec_request (demo_config ''shell'') (demo_session [] False)
          (demo_login ''alice'' ''web01'' ''default'') alice Map.empty),
        ie_Group (exec_request (demo_config ''shell'') (demo_session [] False)
          (demo_login ''alice'' ''web01'' ''default'') alice Map.empty))
     = (1000, 1000)"
    using r [where cfg = "demo_config ''shell''" and s = "demo_session [] False"] shell
    by (simp add: addr alice_def)
  from su login shell wrapped plain host_user instance_user show ?thesis by simp
qed

section \<open>The environment map\<close>

lemma SplitN2_entry:
  "c \<notin> set k \<Longrightarrow> SplitN2 c (k @ c # x) = [k, x]"
  by (induction k) (auto simp: SplitN2_def)

lemma env_entry_other:
  "entry_key v \<noteq> Some k \<Longrightarrow> env_entry v env k = env k"
  by (auto simp: env_entry_def entry_key_def SplitN2_def)

lemma fold_env_entry_other:
  "\<forall>v \<in> set vs. entry_key v \<noteq> Some k \<Longrightarrow> fold env_entry vs env k = env k"
  by (induction vs arbitrary: env) (simp_all add: env_entry_other)

lemma fold_env_entry_last:
  assumes "CHR ''='' \<notin> set k"
    and "\<forall>v \<in> set post. entry_key v \<noteq> Some k"
  shows "fold env_entry (pre @ (k @ ''='' @ x) # post) env k = Some x"
proof -
  have "env_entry (k @ ''='' @ x) (fold env_entry pre env) k = Some x"
    using assms(1) SplitN2_entry [of "CHR ''=''" k x] by (simp add: env_entry_def)
  with assms(2) show ?thesis
    by (simp add: fold_env_entry_other)
qed

text \<open>
  C2, as stated, fails. The claim has the map contain every \<^verbatim>\<open>KEY=VALUE\<close> entry of
  the environment request. A client may send the same name twice; the Go map keeps one
  value per name, the one assigned last. For the request \<^verbatim>\<open>LANG=C\<close>,
  \<^verbatim>\<open>LANG=en_US.UTF-8\<close> the entry \<^verbatim>\<open>LANG=C\<close> is in the request and the map does not
  bind \<^verbatim>\<open>LANG\<close> to \<^verbatim>\<open>C\<close>.
\<close>

theorem setupEnvironmentVariables_duplicate_counterexample:
  "''LANG=C'' \<in> set (Environ (demo_session [] False
        \<lparr>Environ := [''LANG=C'', ''LANG=en_US.UTF-8'']\<rparr>))
   \<and> setupEnvironmentVariables
        (demo_session [] False \<lparr>Environ := [''LANG=C'', ''LANG=en_US.UTF-8'']\<rparr>)
        alice \<lparr>pty_Term = [], pty_Window = \<lparr>Width = 80, Height = 24\<rparr>\<rparr> ''LANG''
       \<noteq> Some ''C''"
  by (simp add: demo_session_def setupEnvironmentVariables_def env_entry_def SplitN2_def)

text \<open>
  C2, amended. The map binds \<^verbatim>\<open>TERM\<close> to the PTY's term when that is non-empty and to
  \<^verbatim>\<open>xterm-256color\<close> otherwise, and \<^verbatim>\<open>USER\<close>, \<^verbatim>\<open>HOME\<close> and \<^verbatim>\<open>SHELL\<close> to the
  instance user's name, home directory and shell, whatever the client sent under these
  four names. For every other name it holds the value of the last \<^verbatim>\<open>KEY=VALUE\<close> entry
  of the request with that name, the name being the text before the first equals sign:
  an entry \<^verbatim>\<open>k=x\<close> that no later entry of the same name follows is bound in the map.
\<close>

theorem setupEnvironmentVariables_last_entry:
  "setupEnvironmentVariables s iu p ''TERM''
     = Some (if pty_Term p \<noteq> [] then pty_Term p else ''xterm-256color'')
   \<and> setupEnvironmentVariables s iu p ''USER'' = Some (iu_User iu)
   \<and> setupEnvironmentVariables s iu p ''HOME'' = Some (iu_Dir iu)
   \<and> setupEnvironmentVariables s iu p ''SHELL'' = Some (iu_Shell iu)
   \<and> (Environ s = pre @ (k @ ''='' @ x) # post
        \<and> CHR ''='' \<notin> set k
        \<and> (\<forall>v \<in> set post. entry_key v \<noteq> Some k)
        \<and> k \<notin> {''TERM'', ''USER'', ''HOME'', ''SHELL''}
      \<longrightarrow> setupEnvironmentVariables s iu p k = Some x)"
proof -
  have fixed: "setupEnvironmentVariables s iu p ''TERM''
       = Some (if pty_Term p \<noteq> [] then pty_Term p else ''xterm-256color'')
     \<and> setupEnvironmentVariables s iu p ''USER'' = Some (iu_User iu)
     \<and> setupEnvironmentVariables s iu p ''HOME'' = Some (iu_Dir iu)
     \<and> setupEnvironmentVariables s iu p ''SHELL'' = Some (iu_Shell iu)"
    by (simp add: setupEnvironmentVariables_def)
  have sent: "setupEnvironmentVariables s iu p k = Some x"
    if "Environ s = pre @ (k @ ''='' @ x) # post" "CHR ''='' \<notin> set k"
      "\<forall>v \<in> set post. entry_key v \<noteq> Some k"
      "k \<notin> {''TERM'', ''USER'', ''HOME'', ''SHELL''}"
  proof -
    have "fold env_entry (Environ s) Map.empty k = Some x"
      using that(1) fold_env_entry_last [OF that(2) that(3), of pre x Map.empty]
      by simp
    with that(4) show ?thesis
      by (simp add: setupEnvironmentVariables_def Let_def)
  qed
  from fixed sent show ?thesis by blast
qed

theorem setupEnvironmentVariables_last_entry_witness:
  "setupEnvironmentVariables
      (demo_session [] False \<lparr>Environ := [''LANG=C'', ''LANG=en_US.UTF-8'', ''USER=root'']\<rparr>)
      alice \<lparr>pty_Term = [], pty_Window = \<lparr>Width = 80, Height = 24\<rparr>\<rparr> ''LANG''
     = Some ''en_US.UTF-8''
   \<and> setupEnvironmentVariables
      (demo_session [] False \<lparr>Environ := [''LANG=C'', ''LANG=en_US.UTF-8'', ''USER=root'']\<rparr>)
      alice \<lparr>pty_Term = [], pty_Window = \<lparr>Width = 80, Height = 24\<rparr>\<rparr> ''USER''
     = Some ''alice''
   \<and> setupEnvironmentVariables
      (demo_session [] False \<lparr>Environ := [''LANG=C'', ''LANG=en_US.UTF-8'', ''USER=root'']\<rparr>)
      alice \<lparr>pty_Term = [], pty_Window = \<lparr>Width = 80, Height = 24\<rparr>\<rparr> ''TERM''
     = Some ''xterm-256color''"
  using setupEnvironmentVariables_last_entry
    [where s = "demo_session [] False
        \<lparr>Environ := [''LANG=C'', ''LANG=en_US.UTF-8'', ''USER=root'']\<rparr>"
      and iu = alice and p = "\<lparr>pty_Term = [], pty_Window = \<lparr>Width = 80, Height = 24\<rparr>\<rparr>"
      and pre = "[''LANG=C'']" and k = "''LANG''" and x = "''en_US.UTF-8''"
      and post = "[''USER=root'']"]
  by (simp add: demo_session_def alice_def entry_key_def)

section \<open>Traces of the dispatcher\<close>

lemma shellHandler_connected:
  assumes "reaches_project IsValid b s lu"
  shows "shellHandler IsValid cfg h b s
     = LogDebugf ''shell: connecting %#v'' # Call_NewIncusServer # Call_Connect
       # shell_project cfg b s lu @ [Call_Disconnect]"
  using assms by (auto simp: shellHandler_def reaches_project_def)

lemma used_projects_append: "used_projects (xs @ ys) = used_projects xs @ used_projects ys"
  by (induction xs rule: used_projects.induct) simp_all

lemma exit_codes_append: "exit_codes (xs @ ys) = exit_codes xs @ exit_codes ys"
  by (induction xs rule: exit_codes.induct) simp_all

lemma exec_requests_append: "exec_requests (xs @ ys) = exec_requests xs @ exec_requests ys"
  by (induction xs rule: exec_requests.induct) simp_all

lemma removed_sockets_append:
  "removed_sockets (xs @ ys) = removed_sockets xs @ removed_sockets ys"
  by (induction xs rule: removed_sockets.induct) simp_all

lemma written_append: "written (xs @ ys) = written xs @ written ys"
  by (induction xs rule: written.induct) simp_all

lemma used_projects_incusShell: "used_projects (incusShell cfg h s) = []"
  by (simp add: incusShell_def used_projects_append Let_def
      split: sum.splits list.splits option.splits wait_result.splits)

lemma used_projects_shell_exec: "used_projects (shell_exec cfg b s lu iu env) = []"
  by (simp add: shell_exec_def used_projects_append Let_def split: prod.splits)

lemma used_projects_shell_agent: "used_projects (shell_agent cfg b s lu iu env) = []"
  by (simp add: shell_agent_def used_projects_append used_projects_shell_exec Let_def
      split: sum.splits)

lemma used_projects_shell_user: "used_projects (shell_user cfg b s lu) = []"
  by (simp add: shell_user_def used_projects_append used_projects_shell_agent Let_def
      split: option.splits)

lemma used_projects_shell_project:
  "used_projects (shell_project cfg b s lu)
     = (if IsDefaultProject lu then [] else [lu_Project lu])"
  by (simp add: shell_project_def used_projects_shell_user split: option.splits)

lemma used_projects_shellHandler:
  "used_projects (shellHandler IsValid cfg h b s)
     = (case ctx_LoginUser s of None \<Rightarrow> []
        | Some lu \<Rightarrow> if reaches_project IsValid b s lu \<and> \<not> IsDefaultProject lu
                     then [lu_Project lu] else [])"
  by (simp add: shellHandler_def reaches_project_def used_projects_append
      used_projects_incusShell used_projects_shell_project split: option.splits)

lemma user_lookups_append: "user_lookups (xs @ ys) = user_lookups xs @ user_lookups ys"
  by (induction xs rule: user_lookups.induct) simp_all

lemma shell_project_reached:
  assumes "reaches_user IsValid b s lu"
  shows "shell_project cfg b s lu
     = (if IsDefaultProject lu then [] else [Call_UseProject (lu_Project lu)])
       @ shell_user cfg b s lu"
  using assms by (auto simp: shell_project_def reaches_user_def)

lemma shell_user_absent:
  assumes "lu_InstanceUser lu = []
     \<or> get_instance_user b (lu_Project lu) (lu_Instance lu) (lu_InstanceUser lu) = None"
  shows "shell_user cfg b s lu
     = (if lu_InstanceUser lu = [] then []
        else [Call_GetInstanceUser (lu_Project lu) (lu_Instance lu) (lu_InstanceUser lu)])
       @ [WriteString (''not found user or instance'' @ nl),
          LogErrorf ''shell: not found instance user for %#v'',
          Exit ExitCodeInvalidLogin]"
  using assms by (auto simp: shell_user_def)

section \<open>Project handling\<close>

text \<open>
  C3, as stated, fails. The claim has the dispatcher call \<^verbatim>\<open>UseProject\<close> for every session
  whose login descriptor names a project other than \<^verbatim>\<open>default\<close>. The project is handled
  only once the container API is connected: for the login \<^verbatim>\<open>bob+api.ghost\<close> and a
  connection that fails, the handler exits before it and \<^verbatim>\<open>UseProject\<close> is never called.
\<close>

theorem shellHandler_project_counterexample:
  "lu_Project (demo_login ''bob'' ''api'' ''ghost'') \<noteq> ''default''
   \<and> ctx_LoginUser (demo_session [] False
          \<lparr>ctx_LoginUser := Some (demo_login ''bob'' ''api'' ''ghost'')\<rparr>)
       = Some (demo_login ''bob'' ''api'' ''ghost'')
   \<and> used_projects
        (shellHandler valid_login (demo_config ''shell'') (demo_host WaitNil)
           (demo_backend 0 \<lparr>connect := Some ''connection refused''\<rparr>)
           (demo_session [] False
              \<lparr>ctx_LoginUser := Some (demo_login ''bob'' ''api'' ''ghost'')\<rparr>))
       = []"
  by (simp add: shellHandler_def demo_login_def demo_session_def demo_backend_def
      valid_login_def)

text \<open>
  C3, amended. For every session that carries a valid login descriptor other than the
  self-service one and whose container API client was created and connected: when the
  descriptor names a project other than \<^verbatim>\<open>default\<close>, the dispatcher calls \<^verbatim>\<open>UseProject\<close>
  once, with that project; if the call fails, the only text written to the session is
  \<^verbatim>\<open>unknown project <project>\<close> with a newline, the only exit code is 2, and the exec
  engine is not invoked. For every session whose descriptor names the project
  \<^verbatim>\<open>default\<close>, \<^verbatim>\<open>UseProject\<close> is never called.
\<close>

theorem shellHandler_project:
  "(reaches_project IsValid b s lu \<and> lu_Project lu \<noteq> ''default'' \<longrightarrow>
      used_projects (shellHandler IsValid cfg h b s) = [lu_Project lu]
      \<and> (use_project b (lu_Project lu) \<noteq> None \<longrightarrow>
            written (shellHandler IsValid cfg h b s)
              = [''unknown project '' @ lu_Project lu @ nl]
            \<and> exit_codes (shellHandler IsValid cfg h b s) = [2]
            \<and> exec_requests (shellHandler IsValid cfg h b s) = []))
   \<and> (ctx_LoginUser s = Some lu \<and> lu_Project lu = ''default'' \<longrightarrow>
      used_projects (shellHandler IsValid cfg h b s) = [])"
proof -
  have called: "used_projects (shellHandler IsValid cfg h b s) = [lu_Project lu]"
    if "reaches_project IsValid b s lu" "lu_Project lu \<noteq> ''default''"
    using that by (simp add: used_projects_shellHandler reaches_project_def IsDefaultProject_def)
  have failed: "written (shellHandler IsValid cfg h b s)
        = [''unknown project '' @ lu_Project lu @ nl]
      \<and> exit_codes (shellHandler IsValid cfg h b s) = [2]
      \<and> exec_requests (shellHandler IsValid cfg h b s) = []"
    if "reaches_project IsValid b s lu" "lu_Project lu \<noteq> ''default''"
      "use_project b (lu_Project lu) \<noteq> None"
    using that
    by (auto simp: shellHandler_connected shell_project_def IsDefaultProject_def
        ExitCodeInvalidProject_def)
  have default: "used_projects (shellHandler IsValid cfg h b s) = []"
    if "ctx_LoginUser s = Some lu" "lu_Project lu = ''default''"
    using that by (simp add: used_projects_shellHandler IsDefaultProject_def)
  from called failed default show ?thesis by blast
qed

theorem shellHandler_project_witness:
  "used_projects
      (shellHandler valid_login (demo_config ''shell'') (demo_host WaitNil) (demo_backend 0)
         (demo_session [] False
            \<lparr>ctx_LoginUser := Some (demo_login ''bob'' ''api'' ''ghost'')\<rparr>))
     = [''ghost'']
   \<and> written
      (shellHandler valid_login (demo_config ''shell'') (demo_host WaitNil) (demo_backend 0)
         (demo_session [] False
            \<lparr>ctx_LoginUser := Some (demo_login ''bob'' ''api'' ''ghost'')\<rparr>))
     = [''unknown project ghost'' @ nl]
   \<and> exit_codes
      (shellHandler valid_login (demo_config ''shell'') (demo_host WaitNil) (demo_backend 0)
         (demo_session [] False
            \<lparr>ctx_LoginUser := Some (demo_login ''bob'' ''api'' ''ghost'')\<rparr>))
     = [2]
   \<and> used_projects
      (shellHandler valid_login (demo_config ''shell'') (demo_host WaitNil) (demo_backend 0)
         (demo_session [] False))
     = []"
proof -
  have ghost: "reaches_project valid_login (demo_backend 0)
      (demo_session [] False \<lparr>ctx_LoginUser := Some (demo_login ''bob'' ''api'' ''ghost'')\<rparr>)
      (demo_login ''bob'' ''api'' ''ghost'')"
    by (simp add: reaches_project_def valid_login_def demo_backend_def demo_session_def
        demo_login_def)
  note g = shellHandler_project [where IsValid = valid_login and b = "demo_backend 0"
      and cfg = "demo_config ''shell''" and h = "demo_host WaitNil"
      and lu = "demo_login ''bob'' ''api'' ''ghost''"
      and s = "demo_session [] False
        \<lparr>ctx_LoginUser := Some (demo_login ''bob'' ''api'' ''ghost'')\<rparr>"]
  note d = shellHandler_project [where IsValid = valid_login and b = "demo_backend 0"
      and cfg = "demo_config ''shell''" and h = "demo_host WaitNil"
      and lu = "demo_login ''alice'' ''web01'' ''default''"
      and s = "demo_session [] False"]
  from ghost g d show ?thesis
    by (simp add: demo_login_def demo_backend_def demo_session_def)
qed

section \<open>User handling\<close>

text \<open>
  C4, as stated, fails. The claim covers every session whose descriptor has an empty
  instance user, the lookup being skipped. The user is handled only once the container
  API is connected: for a descriptor with an empty instance user and a connection that
  fails, the handler writes nothing to the session and exits with 255, not with 1.
\<close>

theorem shellHandler_user_counterexample:
  "lu_InstanceUser (demo_login [] ''api'' ''default'') = []
   \<and> ctx_LoginUser (demo_session [] False
          \<lparr>ctx_LoginUser := Some (demo_login [] ''api'' ''default'')\<rparr>)
       = Some (demo_login [] ''api'' ''default'')
   \<and> written
        (shellHandler valid_login (demo_config ''shell'') (demo_host WaitNil)
           (demo_backend 0 \<lparr>connect := Some ''connection refused''\<rparr>)
           (demo_session [] False
              \<lparr>ctx_LoginUser := Some (demo_login [] ''api'' ''default'')\<rparr>))
       = []
   \<and> exit_codes
        (shellHandler valid_login (demo_config ''shell'') (demo_host WaitNil)
           (demo_backend 0 \<lparr>connect := Some ''connection refused''\<rparr>)
           (demo_session [] False
              \<lparr>ctx_LoginUser := Some (demo_login [] ''api'' ''default'')\<rparr>))
       = [255]"
  by (simp add: shellHandler_def demo_login_def demo_session_def demo_backend_def
      valid_login_def ExitCodeConnectionError_def)

text \<open>
  C4, amended. For every session that carries a valid login descriptor other than the
  self-service one, whose container API client was created and connected and whose
  project is \<^verbatim>\<open>default\<close> or was accepted by \<^verbatim>\<open>UseProject\<close>: if the descriptor's instance
  user is empty, in which case \<^verbatim>\<open>GetInstanceUser\<close> is not called at all, or
  \<^verbatim>\<open>GetInstanceUser\<close> returns nil for the descriptor's project, instance and user, then the
  only text written to the session is \<^verbatim>\<open>not found user or instance\<close> with a newline, the
  only exit code is 1, and the exec engine is not invoked.
\<close>

theorem shellHandler_user:
  "reaches_user IsValid b s lu
   \<and> (lu_InstanceUser lu = []
      \<or> get_instance_user b (lu_Project lu) (lu_Instance lu) (lu_InstanceUser lu) = None)
   \<longrightarrow>
     written (shellHandler IsValid cfg h b s) = [''not found user or instance'' @ nl]
     \<and> exit_codes (shellHandler IsValid cfg h b s) = [1]
     \<and> exec_requests (shellHandler IsValid cfg h b s) = []
     \<and> user_lookups (shellHandler IsValid cfg h b s)
         = (if lu_InstanceUser lu = [] then []
            else [(lu_Project lu, lu_Instance lu, lu_InstanceUser lu)])"
proof
  assume a: "reaches_user IsValid b s lu
   \<and> (lu_InstanceUser lu = []
      \<or> get_instance_user b (lu_Project lu) (lu_Instance lu) (lu_InstanceUser lu) = None)"
  then have rp: "reaches_project IsValid b s lu"
    by (simp add: reaches_user_def)
  from a have ru: "reaches_user IsValid b s lu" and ab: "lu_InstanceUser lu = []
      \<or> get_instance_user b (lu_Project lu) (lu_Instance lu) (lu_InstanceUser lu) = None"
    by simp_all
  have tr: "shellHandler IsValid cfg h b s
      = LogDebugf ''shell: connecting %#v'' # Call_NewIncusServer # Call_Connect
        # ((if IsDefaultProject lu then [] else [Call_UseProject (lu_Project lu)])
           @ (if lu_InstanceUser lu = [] then []
              else [Call_GetInstanceUser (lu_Project lu) (lu_Instance lu)
                      (lu_InstanceUser lu)])
           @ [WriteString (''not found user or instance'' @ nl),
              LogErrorf ''shell: not found instance user for %#v'',
              Exit ExitCodeInvalidLogin])
        @ [Call_Disconnect]"
    by (simp only: shellHandler_connected [OF rp] shell_project_reached [OF ru]
        shell_user_absent [OF ab])
  show "written (shellHandler IsValid cfg h b s) = [''not found user or instance'' @ nl]
     \<and> exit_codes (shellHandler IsValid cfg h b s) = [1]
     \<and> exec_requests (shellHandler IsValid cfg h b s) = []
     \<and> user_lookups (shellHandler IsValid cfg h b s)
         = (if lu_InstanceUser lu = [] then []
            else [(lu_Project lu, lu_Instance lu, lu_InstanceUser lu)])"
    unfolding tr by (simp add: ExitCodeInvalidLogin_def)
qed

theorem shellHandler_user_witness:
  "written
      (shellHandler valid_login (demo_config ''shell'') (demo_host WaitNil) (demo_backend 0)
         (demo_session [] False
            \<lparr>ctx_LoginUser := Some (demo_login ''carol'' ''web01'' ''prod'')\<rparr>))
     = [''not found user or instance'' @ nl]
   \<and> exit_codes
      (shellHandler valid_login (demo_config ''shell'') (demo_host WaitNil) (demo_backend 0)
         (demo_session [] False
            \<lparr>ctx_LoginUser := Some (demo_login ''carol'' ''web01'' ''prod'')\<rparr>))
     = [1]
   \<and> user_lookups
      (shellHandler valid_login (demo_config ''shell'') (demo_host WaitNil) (demo_backend 0)
         (demo_session [] False
            \<lparr>ctx_LoginUser := Some (demo_login ''carol'' ''web01'' ''prod'')\<rparr>))
     = [(''prod'', ''web01'', ''carol'')]
   \<and> written
      (shellHandler valid_login (demo_config ''shell'') (demo_host WaitNil) (demo_backend 0)
         (demo_session [] False
            \<lparr>ctx_LoginUser := Some (demo_login [] ''web01'' ''default'')\<rparr>))
     = [''not found user or instance'' @ nl]
   \<and> user_lookups
      (shellHandler valid_login (demo_config ''shell'') (demo_host WaitNil) (demo_backend 0)
         (demo_session [] False
            \<lparr>ctx_LoginUser := Some (demo_login [] ''web01'' ''default'')\<rparr>))
     = []"
proof -
  have carol: "reaches_user valid_login (demo_backend 0)
      (demo_session [] False \<lparr>ctx_LoginUser := Some (demo_login ''carol'' ''web01'' ''prod'')\<rparr>)
      (demo_login ''carol'' ''web01'' ''prod'')"
    by (simp add: reaches_user_def reaches_project_def valid_login_def demo_backend_def
        demo_session_def demo_login_def)
  have nobody: "reaches_user valid_login (demo_backend 0)
      (demo_session [] False \<lparr>ctx_LoginUser := Some (demo_login [] ''web01'' ''default'')\<rparr>)
      (demo_login [] ''web01'' ''default'')"
    by (simp add: reaches_user_def reaches_project_def valid_login_def demo_backend_def
        demo_session_def demo_login_def IsDefaultProject_def)
  note c = shellHandler_user [where IsValid = valid_login and b = "demo_backend 0"
      and cfg = "demo_config ''shell''" and h = "demo_host WaitNil"
      and lu = "demo_login ''carol'' ''web01'' ''prod''"
      and s = "demo_session [] False
        \<lparr>ctx_LoginUser := Some (demo_login ''carol'' ''web01'' ''prod'')\<rparr>"]
  note n = shellHandler_user [where IsValid = valid_login and b = "demo_backend 0"
      and cfg = "demo_config ''shell''" and h = "demo_host WaitNil"
      and lu = "demo_login [] ''web01'' ''default''"
      and s = "demo_session [] False
        \<lparr>ctx_LoginUser := Some (demo_login [] ''web01'' ''default'')\<rparr>"]
  from carol nobody c n show ?thesis
    by (simp add: demo_login_def demo_backend_def)
qed

section \<open>The self-service short-circuit\<close>

lemma no_incusShell_in_shell_exec: "Call_incusShell \<notin> set (shell_exec cfg b s lu iu env)"
  by (simp add: shell_exec_def Let_def split: prod.splits)

lemma no_incusShell_in_shell_agent: "Call_incusShell \<notin> set (shell_agent cfg b s lu iu env)"
  by (simp add: shell_agent_def no_incusShell_in_shell_exec Let_def split: sum.splits)

lemma no_incusShell_in_shell_user: "Call_incusShell \<notin> set (shell_user cfg b s lu)"
  by (simp add: shell_user_def no_incusShell_in_shell_agent split: option.splits)

lemma no_incusShell_in_shell_project: "Call_incusShell \<notin> set (shell_project cfg b s lu)"
  by (simp add: shell_project_def no_incusShell_in_shell_user split: option.splits)

lemma user_lookups_shell_exec: "user_lookups (shell_exec cfg b s lu iu env) = []"
  by (simp add: shell_exec_def user_lookups_append Let_def split: prod.splits)

lemma user_lookups_shell_agent: "user_lookups (shell_agent cfg b s lu iu env) = []"
  by (simp add: shell_agent_def user_lookups_append user_lookups_shell_exec Let_def
      split: sum.splits)

lemma user_lookups_shell_user:
  "user_lookups (shell_user cfg b s lu)
     = (if lu_InstanceUser lu = [] then []
        else [(lu_Project lu, lu_Instance lu, lu_InstanceUser lu)])"
  by (simp add: shell_user_def user_lookups_append user_lookups_shell_agent
      split: option.splits)

text \<open>
  C5. The dispatcher hands the session to the self-service subshell exactly when the login
  descriptor's user is \<^verbatim>\<open>root\<close> and its instance is \<^verbatim>\<open>%shell\<close>. The subshell is entered
  only for such a descriptor, whatever the session; and for a session that carries a valid
  descriptor it is entered if and only if the descriptor has that user and that instance,
  the rest of the handler's trace then being the subshell's. A descriptor with instance
  \<^verbatim>\<open>%shell\<close> and another user takes the normal path: the container API client is
  created next, and once connected the lookup is made for the instance \<^verbatim>\<open>%shell\<close> like
  for any other.
\<close>

theorem shellHandler_self_service:
  "(Call_incusShell \<in> set (shellHandler IsValid cfg h b s) \<longrightarrow>
      (\<exists>u. ctx_LoginUser s = Some u \<and> lu_User u = ''root'' \<and> lu_Instance u = ''%shell''))
   \<and> (ctx_LoginUser s = Some lu \<and> IsValid lu \<longrightarrow>
     (Call_incusShell \<in> set (shellHandler IsValid cfg h b s)
        \<longleftrightarrow> lu_User lu = ''root'' \<and> lu_Instance lu = ''%shell'')
     \<and> (lu_User lu = ''root'' \<and> lu_Instance lu = ''%shell'' \<longrightarrow>
           shellHandler IsValid cfg h b s
             = [LogDebugf ''shell: connecting %#v'', Call_incusShell] @ incusShell cfg h s)
     \<and> (lu_Instance lu = ''%shell'' \<and> lu_User lu \<noteq> ''root'' \<longrightarrow>
           take 2 (shellHandler IsValid cfg h b s)
             = [LogDebugf ''shell: connecting %#v'', Call_NewIncusServer]
           \<and> (reaches_user IsValid b s lu \<and> lu_InstanceUser lu \<noteq> [] \<longrightarrow>
                 user_lookups (shellHandler IsValid cfg h b s)
                   = [(lu_Project lu, ''%shell'', lu_InstanceUser lu)])))"
proof (rule conjI)
  show "Call_incusShell \<in> set (shellHandler IsValid cfg h b s) \<longrightarrow>
      (\<exists>u. ctx_LoginUser s = Some u \<and> lu_User u = ''root'' \<and> lu_Instance u = ''%shell'')"
    by (auto simp: shellHandler_def no_incusShell_in_shell_project
        split: option.splits if_splits)
next
  show "ctx_LoginUser s = Some lu \<and> IsValid lu \<longrightarrow>
     (Call_incusShell \<in> set (shellHandler IsValid cfg h b s)
        \<longleftrightarrow> lu_User lu = ''root'' \<and> lu_Instance lu = ''%shell'')
     \<and> (lu_User lu = ''root'' \<and> lu_Instance lu = ''%shell'' \<longrightarrow>
           shellHandler IsValid cfg h b s
             = [LogDebugf ''shell: connecting %#v'', Call_incusShell] @ incusShell cfg h s)
     \<and> (lu_Instance lu = ''%shell'' \<and> lu_User lu \<noteq> ''root'' \<longrightarrow>
           take 2 (shellHandler IsValid cfg h b s)
             = [LogDebugf ''shell: connecting %#v'', Call_NewIncusServer]
           \<and> (reaches_user IsValid b s lu \<and> lu_InstanceUser lu \<noteq> [] \<longrightarrow>
                 user_lookups (shellHandler IsValid cfg h b s)
                   = [(lu_Project lu, ''%shell'', lu_InstanceUser lu)]))"
  proof
  assume v: "ctx_LoginUser s = Some lu \<and> IsValid lu"
  have iff: "Call_incusShell \<in> set (shellHandler IsValid cfg h b s)
        \<longleftrightarrow> lu_User lu = ''root'' \<and> lu_Instance lu = ''%shell''"
    using v by (simp add: shellHandler_def no_incusShell_in_shell_project split: option.splits)
  have deleg: "shellHandler IsValid cfg h b s
        = [LogDebugf ''shell: connecting %#v'', Call_incusShell] @ incusShell cfg h s"
    if "lu_User lu = ''root'' \<and> lu_Instance lu = ''%shell''"
    using v that by (simp add: shellHandler_def)
  have normal: "take 2 (shellHandler IsValid cfg h b s)
        = [LogDebugf ''shell: connecting %#v'', Call_NewIncusServer]"
    if "lu_Instance lu = ''%shell'' \<and> lu_User lu \<noteq> ''root''"
    using v that by (simp add: shellHandler_def)
  have lookup: "user_lookups (shellHandler IsValid cfg h b s)
        = [(lu_Project lu, ''%shell'', lu_InstanceUser lu)]"
    if n: "lu_Instance lu = ''%shell'' \<and> lu_User lu \<noteq> ''root''"
      and r: "reaches_user IsValid b s lu \<and> lu_InstanceUser lu \<noteq> []"
  proof -
    from r have rp: "reaches_project IsValid b s lu" and ru: "reaches_user IsValid b s lu"
      by (simp_all add: reaches_user_def)
    show ?thesis
      using n r
      by (simp add: shellHandler_connected [OF rp] shell_project_reached [OF ru]
          user_lookups_append user_lookups_shell_user)
  qed
  from iff deleg normal lookup
  show "(Call_incusShell \<in> set (shellHandler IsValid cfg h b s)
        \<longleftrightarrow> lu_User lu = ''root'' \<and> lu_Instance lu = ''%shell'')
     \<and> (lu_User lu = ''root'' \<and> lu_Instance lu = ''%shell'' \<longrightarrow>
           shellHandler IsValid cfg h b s
             = [LogDebugf ''shell: connecting %#v'', Call_incusShell] @ incusShell cfg h s)
     \<and> (lu_Instance lu = ''%shell'' \<and> lu_User lu \<noteq> ''root'' \<longrightarrow>
           take 2 (shellHandler IsValid cfg h b s)
             = [LogDebugf ''shell: connecting %#v'', Call_NewIncusServer]
           \<and> (reaches_user IsValid b s lu \<and> lu_InstanceUser lu \<noteq> [] \<longrightarrow>
                 user_lookups (shellHandler IsValid cfg h b s)
                   = [(lu_Project lu, ''%shell'', lu_InstanceUser lu)]))"
    by blast
  qed
qed

theorem shellHandler_self_service_witness:
  "Call_incusShell \<in> set
      (shellHandler valid_login (demo_config ''shell'') (demo_host WaitNil) (demo_backend 0)
         (demo_session [] False
            \<lparr>ctx_LoginUser := Some (demo_login ''root'' ''%shell'' ''default'')\<rparr>))
   \<and> Call_incusShell \<notin> set
      (shellHandler valid_login (demo_config ''shell'') (demo_host WaitNil) (demo_backend 0)
         (demo_session [] False
            \<lparr>ctx_LoginUser := Some (demo_login ''alice'' ''%shell'' ''default'')\<rparr>))
   \<and> user_lookups
      (shellHandler valid_login (demo_config ''shell'') (demo_host WaitNil) (demo_backend 0)
         (demo_session [] False
            \<lparr>ctx_LoginUser := Some (demo_login ''alice'' ''%shell'' ''default'')\<rparr>))
     = [(''default'', ''%shell'', ''alice'')]"
proof -
  have alice_reaches: "reaches_user valid_login (demo_backend 0)
      (demo_session [] False
         \<lparr>ctx_LoginUser := Some (demo_login ''alice'' ''%shell'' ''default'')\<rparr>)
      (demo_login ''alice'' ''%shell'' ''default'')"
    by (simp add: reaches_user_def reaches_project_def valid_login_def demo_backend_def
        demo_session_def demo_login_def IsDefaultProject_def)
  note r = shellHandler_self_service [where IsValid = valid_login and b = "demo_backend 0"
      and cfg = "demo_config ''shell''" and h = "demo_host WaitNil"
      and lu = "demo_login ''root'' ''%shell'' ''default''"
      and s = "demo_session [] False
        \<lparr>ctx_LoginUser := Some (demo_login ''root'' ''%shell'' ''default'')\<rparr>"]
  note a = shellHandler_self_service [where IsValid = valid_login and b = "demo_backend 0"
      and cfg = "demo_config ''shell''" and h = "demo_host WaitNil"
      and lu = "demo_login ''alice'' ''%shell'' ''default''"
      and s = "demo_session [] False
        \<lparr>ctx_LoginUser := Some (demo_login ''alice'' ''%shell'' ''default'')\<rparr>"]
  from alice_reaches r a show ?thesis
    by (simp add: demo_login_def valid_login_def)
qed

section \<open>Agent forwarding\<close>

lemma ie_Env_exec_request: "ie_Env (exec_request cfg s lu iu env) = env"
  by (simp add: exec_request_def Let_def split: prod.splits)

lemma exec_requests_shell_exec:
  "exec_requests (shell_exec cfg b s lu iu env) = [exec_request cfg s lu iu env]"
  by (simp add: shell_exec_def Let_def exec_requests_append split: prod.splits)

lemma exit_codes_shell_exec:
  "exit_codes (shell_exec cfg b s lu iu env) = [fst (exec b (exec_request cfg s lu iu env))]"
  by (simp add: shell_exec_def Let_def exit_codes_append split: prod.splits)

lemma removed_sockets_shell_exec: "removed_sockets (shell_exec cfg b s lu iu env) = []"
  by (simp add: shell_exec_def Let_def removed_sockets_append split: prod.splits)

lemma shell_user_found:
  assumes "lu_InstanceUser lu \<noteq> []"
    and "get_instance_user b (lu_Project lu) (lu_Instance lu) (lu_InstanceUser lu) = Some iu"
  shows "shell_user cfg b s lu
     = Call_GetInstanceUser (lu_Project lu) (lu_Instance lu) (lu_InstanceUser lu)
       # shell_agent cfg b s lu iu (setupEnvironmentVariables s iu (PtyReq s))"
  using assms by (simp add: shell_user_def)

lemma shellHandler_reaches_agent:
  assumes "reaches_agent IsValid b s lu iu"
  shows "shellHandler IsValid cfg h b s
     = [LogDebugf ''shell: connecting %#v'', Call_NewIncusServer, Call_Connect]
       @ (if IsDefaultProject lu then [] else [Call_UseProject (lu_Project lu)])
       @ [Call_GetInstanceUser (lu_Project lu) (lu_Instance lu) (lu_InstanceUser lu)]
       @ shell_agent cfg b s lu iu (setupEnvironmentVariables s iu (PtyReq s))
       @ [Call_Disconnect]"
proof -
  from assms have ru: "reaches_user IsValid b s lu"
    and rp: "reaches_project IsValid b s lu"
    and nz: "lu_InstanceUser lu \<noteq> []"
    and iu: "get_instance_user b (lu_Project lu) (lu_Instance lu) (lu_InstanceUser lu)
      = Some iu"
    by (simp_all add: reaches_agent_def reaches_user_def)
  show ?thesis
    by (simp add: shellHandler_connected [OF rp] shell_project_reached [OF ru]
        shell_user_found [OF nz iu])
qed

lemma shell_agent_added:
  assumes "AgentRequested s" "new_agent_listener b = Inr addr"
    and "add_socket b (agent_device lu iu addr) = Inr sock"
  shows "shell_agent cfg b s lu iu env
     = [Call_NewAgentListener, Go_ForwardAgentConnections,
        Call_AddSocket (agent_device lu iu addr)]
       @ shell_exec cfg b s lu iu (env(''SSH_AUTH_SOCK'' \<mapsto> sock))
       @ [Call_RemoveSocket (agent_device lu iu addr), Call_ListenerClose]"
  using assms by (simp add: shell_agent_def Let_def)

lemma shell_agent_not_added:
  assumes "AgentRequested s" "new_agent_listener b = Inr addr"
    and "add_socket b (agent_device lu iu addr) = Inl err"
  shows "shell_agent cfg b s lu iu env
     = [Call_NewAgentListener, Go_ForwardAgentConnections,
        Call_AddSocket (agent_device lu iu addr),
        LogErrorf ''Failed to add socket: %w'']
       @ shell_exec cfg b s lu iu env
       @ [Call_ListenerClose]"
  using assms by (simp add: shell_agent_def Let_def)

lemma setupEnvironmentVariables_unsent:
  assumes "\<forall>v \<in> set (Environ s). entry_key v \<noteq> Some k"
    and "k \<notin> {''TERM'', ''USER'', ''HOME'', ''SHELL''}"
  shows "setupEnvironmentVariables s iu p k = None"
proof -
  have "fold env_entry (Environ s) Map.empty k = None"
    using fold_env_entry_other [OF assms(1), of Map.empty] by simp
  with assms(2) show ?thesis
    by (simp add: setupEnvironmentVariables_def Let_def)
qed

lemma env_binding_of_request:
  "map ie_Env xs = [m] \<Longrightarrow> map (\<lambda>ie. ie_Env ie k) xs = [m k]"
  by (cases xs) auto

lemma no_exec_without_listener:
  assumes "reaches_agent IsValid b s lu iu" "AgentRequested s"
    and "new_agent_listener b = Inl err"
  shows "shellHandler IsValid cfg h b s
     = [LogDebugf ''shell: connecting %#v'', Call_NewIncusServer, Call_Connect]
       @ (if IsDefaultProject lu then [] else [Call_UseProject (lu_Project lu)])
       @ [Call_GetInstanceUser (lu_Project lu) (lu_Instance lu) (lu_InstanceUser lu),
          Call_NewAgentListener, LogErrorf ''Failed to create agent listener: %w'',
          Call_Disconnect]"
    and "exec_requests (shellHandler IsValid cfg h b s) = []"
    and "exit_codes (shellHandler IsValid cfg h b s) = []"
  using assms(2,3)
  by (simp_all add: shellHandler_reaches_agent [OF assms(1)] shell_agent_def)

text \<open>
  C6 does not hold of the handler. The claim has every failure of the agent-socket set-up
  logged and the session go on without agent forwarding, the exec still running. That is
  what the handler does when \<^verbatim>\<open>AddSocket\<close> fails, as \<open>shellHandler_agent_socket\<close> below
  shows. When it is the listener that cannot be created, the handler logs the failure and
  returns at once, whatever the session (\<open>no_exec_without_listener\<close>). For the login
  \<^verbatim>\<open>alice+web01\<close> with agent forwarding requested and a failing \<^verbatim>\<open>NewAgentListener\<close>,
  the trace ends with the log line and the deferred disconnect: no \<^verbatim>\<open>AddSocket\<close>, no
  exec, and no call of \<^verbatim>\<open>s.Exit\<close>, which every other early return of the handler
  makes.
\<close>

theorem shellHandler_listener_failure:
  "AgentRequested (demo_session [] True)
   \<and> new_agent_listener (demo_backend 0 \<lparr>new_agent_listener := Inl ''listen failed''\<rparr>)
       = Inl ''listen failed''
   \<and> shellHandler valid_login (demo_config ''shell'') (demo_host WaitNil)
        (demo_backend 0 \<lparr>new_agent_listener := Inl ''listen failed''\<rparr>)
        (demo_session [] True)
       = [LogDebugf ''shell: connecting %#v'', Call_NewIncusServer, Call_Connect,
          Call_GetInstanceUser ''default'' ''web01'' ''alice'', Call_NewAgentListener,
          LogErrorf ''Failed to create agent listener: %w'', Call_Disconnect]
   \<and> exec_requests
        (shellHandler valid_login (demo_config ''shell'') (demo_host WaitNil)
           (demo_backend 0 \<lparr>new_agent_listener := Inl ''listen failed''\<rparr>)
           (demo_session [] True))
       = []
   \<and> exit_codes
        (shellHandler valid_login (demo_config ''shell'') (demo_host WaitNil)
           (demo_backend 0 \<lparr>new_agent_listener := Inl ''listen failed''\<rparr>)
           (demo_session [] True))
       = []"
proof -
  have r': "reaches_agent valid_login
      (demo_backend 0 \<lparr>new_agent_listener := Inl ''listen failed''\<rparr>)
      (demo_session [] True) (demo_login ''alice'' ''web01'' ''default'') alice"
    by (simp add: reaches_agent_def reaches_user_def reaches_project_def valid_login_def
        demo_backend_def demo_session_def demo_login_def IsDefaultProject_def)
  have listener: "shellHandler valid_login (demo_config ''shell'') (demo_host WaitNil)
        (demo_backend 0 \<lparr>new_agent_listener := Inl ''listen failed''\<rparr>)
        (demo_session [] True)
       = [LogDebugf ''shell: connecting %#v'', Call_NewIncusServer, Call_Connect,
          Call_GetInstanceUser ''default'' ''web01'' ''alice'', Call_NewAgentListener,
          LogErrorf ''Failed to create agent listener: %w'', Call_Disconnect]"
    by (simp add: shellHandler_reaches_agent [OF r'] shell_agent_def)
      (simp add: demo_session_def demo_login_def IsDefaultProject_def)
  have req: "AgentRequested (demo_session [] True)
      \<and> new_agent_listener (demo_backend 0 \<lparr>new_agent_listener := Inl ''listen failed''\<rparr>)
       = Inl ''listen failed''"
    by (simp add: demo_session_def)
  from req listener show ?thesis by simp
qed

text \<open>
  The set-up once the listener exists. For every session that requests agent forwarding,
  reaches the agent set-up (valid descriptor other than the self-service one, container
  API connected, project accepted, instance user found) and whose agent listener was
  created: if \<^verbatim>\<open>AddSocket\<close> fails, the failure is logged, the dispatcher binds no
  \<^verbatim>\<open>SSH_AUTH_SOCK\<close> (the exec runs with exactly the environment built by
  \<^verbatim>\<open>setupEnvironmentVariables\<close>, in which the name is absent unless the client sent it)
  and \<^verbatim>\<open>RemoveSocket\<close> is not called; if \<^verbatim>\<open>AddSocket\<close> succeeds, the exec runs with that
  environment and \<^verbatim>\<open>SSH_AUTH_SOCK\<close> bound to the returned path, the session exits with
  the code the exec returned whatever it is, and \<^verbatim>\<open>RemoveSocket\<close> is called exactly once,
  on the device that was added, after the exec and the exit, followed only by the closing
  of the listener and the disconnect.
\<close>

theorem shellHandler_agent_socket:
  "reaches_agent IsValid b s lu iu \<and> AgentRequested s \<and> new_agent_listener b = Inr addr
   \<longrightarrow>
     (add_socket b (agent_device lu iu addr) = Inl err \<longrightarrow>
        LogErrorf ''Failed to add socket: %w'' \<in> set (shellHandler IsValid cfg h b s)
        \<and> map ie_Env (exec_requests (shellHandler IsValid cfg h b s))
            = [setupEnvironmentVariables s iu (PtyReq s)]
        \<and> ((\<forall>v \<in> set (Environ s). entry_key v \<noteq> Some ''SSH_AUTH_SOCK'') \<longrightarrow>
              map (\<lambda>ie. ie_Env ie ''SSH_AUTH_SOCK'')
                (exec_requests (shellHandler IsValid cfg h b s)) = [None])
        \<and> removed_sockets (shellHandler IsValid cfg h b s) = [])
     \<and> (add_socket b (agent_device lu iu addr) = Inr sock \<longrightarrow>
        map ie_Env (exec_requests (shellHandler IsValid cfg h b s))
            = [(setupEnvironmentVariables s iu (PtyReq s))(''SSH_AUTH_SOCK'' \<mapsto> sock)]
        \<and> removed_sockets (shellHandler IsValid cfg h b s) = [agent_device lu iu addr]
        \<and> exit_codes (shellHandler IsValid cfg h b s)
            = [fst (exec b (exec_request cfg s lu iu
                 ((setupEnvironmentVariables s iu (PtyReq s))(''SSH_AUTH_SOCK'' \<mapsto> sock))))]
        \<and> (\<exists>pre. shellHandler IsValid cfg h b s
               = pre @ [Call_RemoveSocket (agent_device lu iu addr), Call_ListenerClose,
                        Call_Disconnect]
             \<and> exec_requests pre \<noteq> [] \<and> exit_codes pre \<noteq> []))"
proof
  assume a: "reaches_agent IsValid b s lu iu \<and> AgentRequested s
    \<and> new_agent_listener b = Inr addr"
  then have r: "reaches_agent IsValid b s lu iu" and ag: "AgentRequested s"
    and li: "new_agent_listener b = Inr addr"
    by simp_all
  let ?env = "setupEnvironmentVariables s iu (PtyReq s)"
  let ?d = "agent_device lu iu addr"
  let ?T = "shellHandler IsValid cfg h b s"
  have failed: "LogErrorf ''Failed to add socket: %w'' \<in> set ?T
      \<and> map ie_Env (exec_requests ?T) = [?env]
      \<and> ((\<forall>v \<in> set (Environ s). entry_key v \<noteq> Some ''SSH_AUTH_SOCK'') \<longrightarrow>
            map (\<lambda>ie. ie_Env ie ''SSH_AUTH_SOCK'') (exec_requests ?T) = [None])
      \<and> removed_sockets ?T = []"
    if f: "add_socket b ?d = Inl err"
  proof -
    have obs: "LogErrorf ''Failed to add socket: %w'' \<in> set ?T
        \<and> map ie_Env (exec_requests ?T) = [?env] \<and> removed_sockets ?T = []"
      by (simp add: shellHandler_reaches_agent [OF r] shell_agent_not_added [OF ag li f]
          exec_requests_append exec_requests_shell_exec ie_Env_exec_request
          removed_sockets_append removed_sockets_shell_exec)
    have unsent: "map (\<lambda>ie. ie_Env ie ''SSH_AUTH_SOCK'') (exec_requests ?T) = [None]"
      if n: "\<forall>v \<in> set (Environ s). entry_key v \<noteq> Some ''SSH_AUTH_SOCK''"
    proof -
      have "?env ''SSH_AUTH_SOCK'' = None"
        by (rule setupEnvironmentVariables_unsent [OF n]) simp
      with obs env_binding_of_request [of "exec_requests ?T" ?env "''SSH_AUTH_SOCK''"]
      show ?thesis by simp
    qed
    from obs unsent show ?thesis by blast
  qed
  have added: "map ie_Env (exec_requests ?T) = [?env(''SSH_AUTH_SOCK'' \<mapsto> sock)]
      \<and> removed_sockets ?T = [?d]
      \<and> exit_codes ?T
          = [fst (exec b (exec_request cfg s lu iu (?env(''SSH_AUTH_SOCK'' \<mapsto> sock))))]
      \<and> (\<exists>pre. ?T = pre @ [Call_RemoveSocket ?d, Call_ListenerClose, Call_Disconnect]
           \<and> exec_requests pre \<noteq> [] \<and> exit_codes pre \<noteq> [])"
    if f: "add_socket b ?d = Inr sock"
  proof -
    let ?pre = "[LogDebugf ''shell: connecting %#v'', Call_NewIncusServer, Call_Connect]
       @ (if IsDefaultProject lu then [] else [Call_UseProject (lu_Project lu)])
       @ [Call_GetInstanceUser (lu_Project lu) (lu_Instance lu) (lu_InstanceUser lu)]
       @ [Call_NewAgentListener, Go_ForwardAgentConnections, Call_AddSocket ?d]
       @ shell_exec cfg b s lu iu (?env(''SSH_AUTH_SOCK'' \<mapsto> sock))"
    have tr: "?T = ?pre @ [Call_RemoveSocket ?d, Call_ListenerClose, Call_Disconnect]"
      by (simp add: shellHandler_reaches_agent [OF r] shell_agent_added [OF ag li f])
    have pre: "exec_requests ?pre \<noteq> [] \<and> exit_codes ?pre \<noteq> []"
      by (simp add: exec_requests_append exec_requests_shell_exec exit_codes_append
          exit_codes_shell_exec)
    have obs: "map ie_Env (exec_requests ?T) = [?env(''SSH_AUTH_SOCK'' \<mapsto> sock)]
        \<and> removed_sockets ?T = [?d]
        \<and> exit_codes ?T
            = [fst (exec b (exec_request cfg s lu iu (?env(''SSH_AUTH_SOCK'' \<mapsto> sock))))]"
      unfolding tr
      by (simp add: exec_requests_append exec_requests_shell_exec ie_Env_exec_request
          removed_sockets_append removed_sockets_shell_exec exit_codes_append
          exit_codes_shell_exec)
    from tr pre obs show ?thesis by blast
  qed
  from failed added
  show "(add_socket b ?d = Inl err \<longrightarrow>
        LogErrorf ''Failed to add socket: %w'' \<in> set ?T
        \<and> map ie_Env (exec_requests ?T) = [?env]
        \<and> ((\<forall>v \<in> set (Environ s). entry_key v \<noteq> Some ''SSH_AUTH_SOCK'') \<longrightarrow>
              map (\<lambda>ie. ie_Env ie ''SSH_AUTH_SOCK'') (exec_requests ?T) = [None])
        \<and> removed_sockets ?T = [])
     \<and> (add_socket b ?d = Inr sock \<longrightarrow>
        map ie_Env (exec_requests ?T) = [?env(''SSH_AUTH_SOCK'' \<mapsto> sock)]
        \<and> removed_sockets ?T = [?d]
        \<and> exit_codes ?T
            = [fst (exec b (exec_request cfg s lu iu (?env(''SSH_AUTH_SOCK'' \<mapsto> sock))))]
        \<and> (\<exists>pre. ?T = pre @ [Call_RemoveSocket ?d, Call_ListenerClose, Call_Disconnect]
             \<and> exec_requests pre \<noteq> [] \<and> exit_codes pre \<noteq> []))"
    by blast
qed

theorem shellHandler_agent_socket_witness:
  "map (\<lambda>ie. ie_Env ie ''SSH_AUTH_SOCK'')
      (exec_requests
         (shellHandler valid_login (demo_config ''shell'') (demo_host WaitNil) (demo_backend 3)
            (demo_session ''false'' True)))
     = [Some ''/tmp/ssh-agent.sock'']
   \<and> removed_sockets
      (shellHandler valid_login (demo_config ''shell'') (demo_host WaitNil) (demo_backend 3)
         (demo_session ''false'' True))
     = [agent_device (demo_login ''alice'' ''web01'' ''default'') alice
          ''/tmp/auth-agent/listener.sock'']
   \<and> exit_codes
      (shellHandler valid_login (demo_config ''shell'') (demo_host WaitNil) (demo_backend 3)
         (demo_session ''false'' True))
     = [3]
   \<and> map (\<lambda>ie. ie_Env ie ''SSH_AUTH_SOCK'')
      (exec_requests
         (shellHandler valid_login (demo_config ''shell'') (demo_host WaitNil)
            (demo_backend 3 \<lparr>add_socket := (\<lambda>d. Inl ''device error'')\<rparr>)
            (demo_session ''false'' True)))
     = [None]
   \<and> removed_sockets
      (shellHandler valid_login (demo_config ''shell'') (demo_host WaitNil)
         (demo_backend 3 \<lparr>add_socket := (\<lambda>d. Inl ''device error'')\<rparr>)
         (demo_session ''false'' True))
     = []"
proof -
  have r1: "reaches_agent valid_login (demo_backend 3) (demo_session ''false'' True)
      (demo_login ''alice'' ''web01'' ''default'') alice
    \<and> AgentRequested (demo_session ''false'' True)
    \<and> new_agent_listener (demo_backend 3) = Inr ''/tmp/auth-agent/listener.sock''"
    by (simp add: reaches_agent_def reaches_user_def reaches_project_def valid_login_def
        demo_backend_def demo_session_def demo_login_def IsDefaultProject_def)
  have r2: "reaches_agent valid_login
      (demo_backend 3 \<lparr>add_socket := (\<lambda>d. Inl ''device error'')\<rparr>)
      (demo_session ''false'' True) (demo_login ''alice'' ''web01'' ''default'') alice
    \<and> AgentRequested (demo_session ''false'' True)
    \<and> new_agent_listener (demo_backend 3 \<lparr>add_socket := (\<lambda>d. Inl ''device error'')\<rparr>)
        = Inr ''/tmp/auth-agent/listener.sock''"
    by (simp add: reaches_agent_def reaches_user_def reaches_project_def valid_login_def
        demo_backend_def demo_session_def demo_login_def IsDefaultProject_def)
  have ok: "add_socket (demo_backend 3)
      (agent_device (demo_login ''alice'' ''web01'' ''default'') alice
         ''/tmp/auth-agent/listener.sock'') = Inr ''/tmp/ssh-agent.sock''"
    by (simp add: demo_backend_def)
  have ko: "add_socket (demo_backend 3 \<lparr>add_socket := (\<lambda>d. Inl ''device error'')\<rparr>)
      (agent_device (demo_login ''alice'' ''web01'' ''default'') alice
         ''/tmp/auth-agent/listener.sock'') = Inl ''device error''"
    by simp
  have ret: "fst (exec (demo_backend 3) ie) = 3" for ie
    by (simp add: demo_backend_def)
  note w1 = shellHandler_agent_socket [where IsValid = valid_login and b = "demo_backend 3"
      and cfg = "demo_config ''shell''" and h = "demo_host WaitNil"
      and lu = "demo_login ''alice'' ''web01'' ''default''" and iu = alice
      and s = "demo_session ''false'' True" and addr = "''/tmp/auth-agent/listener.sock''"
      and sock = "''/tmp/ssh-agent.sock''" and err = "''device error''", rule_format, OF r1]
  note w2 = shellHandler_agent_socket [where IsValid = valid_login
      and b = "demo_backend 3 \<lparr>add_socket := (\<lambda>d. Inl ''device error'')\<rparr>"
      and cfg = "demo_config ''shell''" and h = "demo_host WaitNil"
      and lu = "demo_login ''alice'' ''web01'' ''default''" and iu = alice
      and s = "demo_session ''false'' True" and addr = "''/tmp/auth-agent/listener.sock''"
      and sock = "''/tmp/ssh-agent.sock''" and err = "''device error''", rule_format, OF r2]
  note a1 = w1 [THEN conjunct2, rule_format, OF ok]
  note a2 = w2 [THEN conjunct1, rule_format, OF ko]
  from a1 have e1: "map (\<lambda>ie. ie_Env ie ''SSH_AUTH_SOCK'')
      (exec_requests
         (shellHandler valid_login (demo_config ''shell'') (demo_host WaitNil) (demo_backend 3)
            (demo_session ''false'' True)))
     = [Some ''/tmp/ssh-agent.sock'']"
    using env_binding_of_request [where k = "''SSH_AUTH_SOCK''"] by fastforce
  from a2 have e2: "map (\<lambda>ie. ie_Env ie ''SSH_AUTH_SOCK'')
      (exec_requests
         (shellHandler valid_login (demo_config ''shell'') (demo_host WaitNil)
            (demo_backend 3 \<lparr>add_socket := (\<lambda>d. Inl ''device error'')\<rparr>)
            (demo_session ''false'' True)))
     = [None]"
    by (simp add: demo_session_def entry_key_def)
  from a1 a2 e1 e2 show ?thesis
    by (simp add: ret)
qed

section \<open>Properties of the self-service subshell\<close>

lemma started_envs_append: "started_envs (xs @ ys) = started_envs xs @ started_envs ys"
  by (induction xs rule: started_envs.induct) simp_all

text \<open>
  C7, as stated, fails. The claim has every invocation with a PTY return the child's exit
  code to the SSH layer. Two branches of the source return 255 instead: when
  \<^verbatim>\<open>pty.Start\<close> fails no child exists, the handler writes that it could not allocate a
  PTY and exits with 255; and when \<^verbatim>\<open>cmd.Wait\<close> fails with an error that is not an exit
  error, the handler exits with 255 as well.
\<close>

theorem incusShell_exit_counterexample:
  "IsPty (demo_session [] False \<lparr>IsPty := True\<rparr>)
   \<and> pty_Start (demo_host WaitNil \<lparr>pty_Start := (\<lambda>args env. Some ''fork failed'')\<rparr>)
        [''bash'', ''-c'', ''incus-loop'']
        [''TERM='', ''PATH=/bin:/usr/bin:/snap/bin:/usr/local/bin'',
         ''INCUS_SOCKET=/var/lib/incus/unix.socket''] = Some ''fork failed''
   \<and> incusShell (demo_config ''shell'')
        (demo_host WaitNil \<lparr>pty_Start := (\<lambda>args env. Some ''fork failed'')\<rparr>)
        (demo_session [] False \<lparr>IsPty := True\<rparr>)
       = [Call_shlexSplit cmdString True,
          Call_ptyStart [''bash'', ''-c'', ''incus-loop'']
            [''TERM='', ''PATH=/bin:/usr/bin:/snap/bin:/usr/local/bin'',
             ''INCUS_SOCKET=/var/lib/incus/unix.socket''],
          LogErrorf ''pty start failed: %w'',
          WriteString (''Couldn'' @ [CHR 0x27] @ ''t allocate PTY'' @ nl),
          Exit 255]
   \<and> cmd_Wait (demo_host (WaitOtherError ''wait: no child processes''))
       = WaitOtherError ''wait: no child processes''
   \<and> exit_codes (incusShell (demo_config ''shell'')
        (demo_host (WaitOtherError ''wait: no child processes''))
        (demo_session [] False \<lparr>IsPty := True\<rparr>)) = [255]"
  by (simp add: incusShell_def demo_host_def demo_session_def demo_config_def
      ExitCodeConnectionError_def)

text \<open>
  C7, amended. For every invocation of the self-service subshell whose fixed command line
  is split into a non-empty argument vector: without a PTY on the session it writes
  \<^verbatim>\<open>No PTY requested.\<close> with a newline and exits with 255 without a call of
  \<^verbatim>\<open>pty.Start\<close>; with a PTY it starts the child once, with the environment
  \<^verbatim>\<open>TERM=<term>\<close>, the fixed \<^verbatim>\<open>PATH\<close> and \<^verbatim>\<open>INCUS_SOCKET=<socket>\<close>; if the start
  fails it writes \<^verbatim>\<open>Couldn't allocate PTY\<close> and exits with 255; if the child was started
  and ends with an exit error, the exit code given to the SSH layer is the child's exit
  code; if waiting for it fails otherwise, the exit code is 255.
\<close>

theorem incusShell_pty:
  "shlex_Split h cmdString True = Inr (arg0 # rest) \<longrightarrow>
     (\<not> IsPty s \<longrightarrow>
        written (incusShell cfg h s) = [''No PTY requested.'' @ nl]
        \<and> exit_codes (incusShell cfg h s) = [255]
        \<and> started_envs (incusShell cfg h s) = [])
     \<and> (IsPty s \<longrightarrow>
        started_envs (incusShell cfg h s)
          = [[''TERM='' @ pty_Term (PtyReq s),
              ''PATH=/bin:/usr/bin:/snap/bin:/usr/local/bin'',
              ''INCUS_SOCKET='' @ cfg_IncusSocket cfg]]
        \<and> (pty_Start h (arg0 # rest)
              [''TERM='' @ pty_Term (PtyReq s),
               ''PATH=/bin:/usr/bin:/snap/bin:/usr/local/bin'',
               ''INCUS_SOCKET='' @ cfg_IncusSocket cfg] = None \<longrightarrow>
             (cmd_Wait h = WaitExitError code \<longrightarrow> exit_codes (incusShell cfg h s) = [code])
             \<and> (cmd_Wait h = WaitOtherError msg \<longrightarrow>
                   exit_codes (incusShell cfg h s) = [255]))
        \<and> (pty_Start h (arg0 # rest)
              [''TERM='' @ pty_Term (PtyReq s),
               ''PATH=/bin:/usr/bin:/snap/bin:/usr/local/bin'',
               ''INCUS_SOCKET='' @ cfg_IncusSocket cfg] = Some err \<longrightarrow>
             written (incusShell cfg h s)
               = [''Couldn'' @ [CHR 0x27] @ ''t allocate PTY'' @ nl]
             \<and> exit_codes (incusShell cfg h s) = [255]))"
  by (simp add: incusShell_def ExitCodeConnectionError_def exit_codes_append written_append
      started_envs_append Let_def split: option.splits wait_result.splits)

theorem incusShell_pty_witness:
  "written (incusShell (demo_config ''shell'') (demo_host (WaitExitError 7))
      (demo_session [] False)) = [''No PTY requested.'' @ nl]
   \<and> exit_codes (incusShell (demo_config ''shell'') (demo_host (WaitExitError 7))
      (demo_session [] False)) = [255]
   \<and> started_envs (incusShell (demo_config ''shell'') (demo_host (WaitExitError 7))
      (demo_session [] False)) = []
   \<and> started_envs (incusShell (demo_config ''shell'') (demo_host (WaitExitError 7))
      (demo_session [] False
         \<lparr>PtyReq := \<lparr>pty_Term = ''xterm'', pty_Window = \<lparr>Width = 80, Height = 24\<rparr>\<rparr>,
          IsPty := True\<rparr>))
     = [[''TERM=xterm'', ''PATH=/bin:/usr/bin:/snap/bin:/usr/local/bin'',
         ''INCUS_SOCKET=/var/lib/incus/unix.socket'']]
   \<and> exit_codes (incusShell (demo_config ''shell'') (demo_host (WaitExitError 7))
      (demo_session [] False
         \<lparr>PtyReq := \<lparr>pty_Term = ''xterm'', pty_Window = \<lparr>Width = 80, Height = 24\<rparr>\<rparr>,
          IsPty := True\<rparr>))
     = [7]
   \<and> exit_codes (incusShell (demo_config ''shell'')
      (demo_host (WaitOtherError ''wait: no child processes''))
      (demo_session [] False \<lparr>IsPty := True\<rparr>))
     = [255]
   \<and> written (incusShell (demo_config ''shell'')
      (demo_host WaitNil \<lparr>pty_Start := (\<lambda>args env. Some ''fork failed'')\<rparr>)
      (demo_session [] False \<lparr>IsPty := True\<rparr>))
     = [''Couldn'' @ [CHR 0x27] @ ''t allocate PTY'' @ nl]
   \<and> exit_codes (incusShell (demo_config ''shell'')
      (demo_host WaitNil \<lparr>pty_Start := (\<lambda>args env. Some ''fork failed'')\<rparr>)
      (demo_session [] False \<lparr>IsPty := True\<rparr>))
     = [255]"
proof -
  have sp: "shlex_Split (demo_host (WaitExitError 7)) cmdString True
      = Inr (''bash'' # [''-c'', ''incus-loop''])"
    by (simp add: demo_host_def)
  have sp_other: "shlex_Split (demo_host (WaitOtherError ''wait: no child processes''))
      cmdString True = Inr (''bash'' # [''-c'', ''incus-loop''])"
    by (simp add: demo_host_def)
  have sp_fail: "shlex_Split
      (demo_host WaitNil \<lparr>pty_Start := (\<lambda>args env. Some ''fork failed'')\<rparr>)
      cmdString True = Inr (''bash'' # [''-c'', ''incus-loop''])"
    by (simp add: demo_host_def)
  note o = incusShell_pty [where h = "demo_host (WaitOtherError ''wait: no child processes'')"
      and cfg = "demo_config ''shell''" and s = "demo_session [] False \<lparr>IsPty := True\<rparr>"
      and msg = "''wait: no child processes''", rule_format, OF sp_other]
  note f = incusShell_pty [where cfg = "demo_config ''shell''"
      and h = "demo_host WaitNil \<lparr>pty_Start := (\<lambda>args env. Some ''fork failed'')\<rparr>"
      and s = "demo_session [] False \<lparr>IsPty := True\<rparr>"
      and err = "''fork failed''", rule_format, OF sp_fail]
  note n = incusShell_pty [where h = "demo_host (WaitExitError 7)"
      and cfg = "demo_config ''shell''" and s = "demo_session [] False"
      and code = 7, rule_format, OF sp]
  note p = incusShell_pty [where h = "demo_host (WaitExitError 7)"
      and cfg = "demo_config ''shell''"
      and s = "demo_session [] False
         \<lparr>PtyReq := \<lparr>pty_Term = ''xterm'', pty_Window = \<lparr>Width = 80, Height = 24\<rparr>\<rparr>,
          IsPty := True\<rparr>"
      and code = 7, rule_format, OF sp]
  from n p o f show ?thesis
    by (simp add: demo_session_def demo_host_def demo_config_def)
qed

section \<open>Group lists of a host user\<close>

text \<open>
  C9. \<^verbatim>\<open>idGroupList\<close> and \<^verbatim>\<open>idGroupNameList\<close> hand on the error of the \<^verbatim>\<open>id\<close>
  command as it is when the command fails. When it succeeds they return \<^verbatim>\<open>errNotFound\<close>
  exactly when its output is empty after \<^verbatim>\<open>bytes.TrimSpace\<close> trimmed the white space, and
  otherwise, with no error, the fields \<^verbatim>\<open>strings.Fields\<close> splits the trimmed output into
  at its white space. There is no condition on the output: the statement is about the
  library's two functions, whatever they trim and split.
\<close>

theorem idGroupList_results:
  "(command idExe [''-G'', Username u] = Inl e \<longrightarrow>
      idGroupList TrimSpace Fields command idExe u = Inl e)
   \<and> (command idExe [''-G'', Username u] = Inr data \<longrightarrow>
        (idGroupList TrimSpace Fields command idExe u = Inl errNotFound
           \<longleftrightarrow> TrimSpace data = [])
        \<and> (TrimSpace data \<noteq> [] \<longrightarrow>
              idGroupList TrimSpace Fields command idExe u = Inr (Fields (TrimSpace data))))
   \<and> (command idExe [''-Gn'', Username u] = Inl e' \<longrightarrow>
        idGroupNameList TrimSpace Fields command idExe u = Inl e')
   \<and> (command idExe [''-Gn'', Username u] = Inr names \<longrightarrow>
        (idGroupNameList TrimSpace Fields command idExe u = Inl errNotFound
           \<longleftrightarrow> TrimSpace names = [])
        \<and> (TrimSpace names \<noteq> [] \<longrightarrow>
              idGroupNameList TrimSpace Fields command idExe u
                = Inr (Fields (TrimSpace names))))"
  by (simp add: idGroupList_def idGroupNameList_def Let_def)

theorem idGroupList_results_witness:
  "idGroupList demo_TrimSpace demo_Fields demo_command ''/usr/bin/id'' \<lparr>Username = ''alice''\<rparr>
     = Inr [''1000'', ''27'', ''100'']
   \<and> idGroupNameList demo_TrimSpace demo_Fields demo_command ''/usr/bin/id''
       \<lparr>Username = ''alice''\<rparr>
     = Inr [''alice'', ''sudo'', ''users'']
   \<and> idGroupList demo_TrimSpace demo_Fields demo_command ''/usr/bin/id'' \<lparr>Username = ''ghost''\<rparr>
     = Inl errNotFound
   \<and> idGroupNameList demo_TrimSpace demo_Fields demo_command ''/usr/bin/id''
       \<lparr>Username = ''ghost''\<rparr>
     = Inl errNotFound
   \<and> idGroupList demo_TrimSpace demo_Fields demo_command ''/usr/bin/id'' \<lparr>Username = ''nbsp''\<rparr>
     = Inl errNotFound
   \<and> idGroupNameList demo_TrimSpace demo_Fields demo_command ''/usr/bin/id''
       \<lparr>Username = ''nbsp''\<rparr>
     = Inl errNotFound
   \<and> idGroupList demo_TrimSpace demo_Fields demo_command ''/usr/bin/id''
       \<lparr>Username = ''mallory''\<rparr>
     = Inl (CommandError ''exit status 1'')
   \<and> idGroupNameList demo_TrimSpace demo_Fields demo_command ''/usr/bin/id''
       \<lparr>Username = ''mallory''\<rparr>
     = Inl (CommandError ''exit status 1'')"
proof -
  note r = idGroupList_results [where TrimSpace = demo_TrimSpace and Fields = demo_Fields
      and command = demo_command and idExe = "''/usr/bin/id''"]
  note a = r [where u = "\<lparr>Username = ''alice''\<rparr>" and data = "''1000 27 100'' @ nl"
      and names = "''alice sudo users'' @ nl"]
  note g = r [where u = "\<lparr>Username = ''ghost''\<rparr>" and data = nl and names = nl]
  note n = r [where u = "\<lparr>Username = ''nbsp''\<rparr>" and data = "[CHR 0xC2, CHR 0xA0] @ nl"
      and names = "[CHR 0xC2, CHR 0xA0] @ nl"]
  note m = r [where u = "\<lparr>Username = ''mallory''\<rparr>" and e = "CommandError ''exit status 1''"
      and e' = "CommandError ''exit status 1''"]
  from a g n m show ?thesis
    by (simp add: demo_command_def demo_TrimSpace_def demo_Fields_def nl_def)
qed

section \<open>Properties of the banner\<close>

lemma bannerHandler_valid:
  "IsValid lu \<Longrightarrow>
   bannerHandler IsValid hostname lu b
     = (b @ banner_line lu (if hostname \<noteq> [] then '' '' @ laptop @ '' '' @ hostname else [])
          @ nl,
        b @ banner_line lu (if hostname \<noteq> [] then '' '' @ laptop @ '' '' @ hostname else []))"
  by (simp add: bannerHandler_def Let_def)

lemma banner_line_not_Nil: "banner_line lu h \<noteq> []"
  by (simp add: banner_line_def bust_def)

text \<open>
  C10. For a login descriptor that is not valid, \<^verbatim>\<open>bannerHandler\<close> returns the empty
  string: no banner, and with it no user, instance or project, is shown. This holds for
  both handlers of \<^verbatim>\<open>banner.go\<close>; the first also leaves its package variable as it was.
\<close>

theorem bannerHandler_invalid:
  "\<not> IsValid lu \<longrightarrow>
     bannerHandler IsValid hostname lu b = ([], b)
     \<and> bannerHandler_const IsValid IsCommand hostname lu = []"
  by (simp add: bannerHandler_def bannerHandler_const_def)

theorem bannerHandler_invalid_witness:
  "bannerHandler valid_login ''host1'' (demo_login ''alice'' [] ''default'') banner
     = ([], banner)
   \<and> bannerHandler_const valid_login (\<lambda>lu. False) ''host1''
       (demo_login ''alice'' [] ''default'') = []"
  using bannerHandler_invalid [where IsValid = valid_login and hostname = "''host1''"
      and lu = "demo_login ''alice'' [] ''default''" and b = banner
      and IsCommand = "\<lambda>lu. False"]
  by (simp add: valid_login_def demo_login_def)

text \<open>
  C8 does not hold of the first \<^verbatim>\<open>bannerHandler\<close> of \<^verbatim>\<open>banner.go\<close>, which appends the
  session's line to the package variable \<^verbatim>\<open>banner\<close> itself. For the login
  \<^verbatim>\<open>alice+web01\<close> on the host \<^verbatim>\<open>host1\<close>: after one call the variable is the template
  followed by the session's line, no longer the template; the first call returns the
  template with one such line, and a second call for the same descriptor and host name
  returns it with two, a different string. The second handler of the file builds the
  banner in a local variable from a constant and does what the claim says.
\<close>

theorem bannerHandler_template_grows:
  "snd (bannerHandler valid_login ''host1'' (demo_login ''alice'' ''web01'' ''default'') banner)
     = banner @ banner_line (demo_login ''alice'' ''web01'' ''default'')
         ('' '' @ laptop @ '' host1'')
   \<and> snd (bannerHandler valid_login ''host1'' (demo_login ''alice'' ''web01'' ''default'')
        banner) \<noteq> banner
   \<and> fst (bannerHandler valid_login ''host1'' (demo_login ''alice'' ''web01'' ''default'')
        banner)
     = banner @ banner_line (demo_login ''alice'' ''web01'' ''default'')
         ('' '' @ laptop @ '' host1'') @ nl
   \<and> fst (bannerHandler valid_login ''host1'' (demo_login ''alice'' ''web01'' ''default'')
        (snd (bannerHandler valid_login ''host1''
           (demo_login ''alice'' ''web01'' ''default'') banner)))
     = banner @ banner_line (demo_login ''alice'' ''web01'' ''default'')
         ('' '' @ laptop @ '' host1'')
       @ banner_line (demo_login ''alice'' ''web01'' ''default'')
         ('' '' @ laptop @ '' host1'') @ nl
   \<and> fst (bannerHandler valid_login ''host1'' (demo_login ''alice'' ''web01'' ''default'')
        (snd (bannerHandler valid_login ''host1''
           (demo_login ''alice'' ''web01'' ''default'') banner)))
     \<noteq> fst (bannerHandler valid_login ''host1'' (demo_login ''alice'' ''web01'' ''default'')
        banner)"
proof -
  have v: "valid_login (demo_login ''alice'' ''web01'' ''default'')"
    by (simp add: valid_login_def demo_login_def)
  have nz: "banner_line (demo_login ''alice'' ''web01'' ''default'')
      ('' '' @ laptop @ '' host1'') \<noteq> []"
    by (rule banner_line_not_Nil)
  show ?thesis
    using nz
    by (simp add: bannerHandler_valid [where IsValid = valid_login
          and lu = "demo_login ''alice'' ''web01'' ''default''", OF v])
qed

end
